theory Spec2Isabelle
  imports Main "HOL-Library.Word" "HOL-Library.Sublist"
begin

section \<open>Go strings\<close>

text \<open>
  A Go string is a sequence of bytes, modelled as \<open>string\<close> (a list of 8-bit characters).
  \<open>strings.TrimSpace\<close> removes the leading and the trailing white space runes, as
  \<open>unicode.IsSpace\<close> defines them: the six ASCII ones and U+0085, U+00A0, U+1680,
  U+2000..U+200A, U+2028, U+2029, U+202F, U+205F, U+3000. \<open>spaceRunes\<close> lists their UTF-8
  encodings. UTF-8 is prefix-free and a lead byte is never a continuation byte, so a string
  starts (ends) with a white space rune exactly when it starts (ends) with one of these
  byte sequences.
\<close>

definition spaceRunes :: "string list" where
  "spaceRunes =
    [[CHR 0x09], [CHR 0x0A], [CHR 0x0B], [CHR 0x0C], [CHR 0x0D], [CHR 0x20],
     [CHR 0xC2, CHR 0x85], [CHR 0xC2, CHR 0xA0], [CHR 0xE1, CHR 0x9A, CHR 0x80],
     [CHR 0xE2, CHR 0x80, CHR 0x80], [CHR 0xE2, CHR 0x80, CHR 0x81],
     [CHR 0xE2, CHR 0x80, CHR 0x82], [CHR 0xE2, CHR 0x80, CHR 0x83],
     [CHR 0xE2, CHR 0x80, CHR 0x84], [CHR 0xE2, CHR 0x80, CHR 0x85],
     [CHR 0xE2, CHR 0x80, CHR 0x86], [CHR 0xE2, CHR 0x80, CHR 0x87],
     [CHR 0xE2, CHR 0x80, CHR 0x88], [CHR 0xE2, CHR 0x80, CHR 0x89],
     [CHR 0xE2, CHR 0x80, CHR 0x8A], [CHR 0xE2, CHR 0x80, CHR 0xA8],
     [CHR 0xE2, CHR 0x80, CHR 0xA9], [CHR 0xE2, CHR 0x80, CHR 0xAF],
     [CHR 0xE2, CHR 0x81, CHR 0x9F], [CHR 0xE3, CHR 0x80, CHR 0x80]]"

text \<open>\<open>stripOne ps s\<close>: \<open>s\<close> without its leading rune, when that rune is one of \<open>ps\<close>.\<close>

fun stripOne :: "string list \<Rightarrow> string \<Rightarrow> string option" where
  "stripOne [] s = None"
| "stripOne (p # ps) s =
     (if p \<noteq> [] \<and> prefix p s then Some (drop (length p) s) else stripOne ps s)"

function trimLeftRunes :: "string list \<Rightarrow> string \<Rightarrow> string" where
  "trimLeftRunes ps s = (case stripOne ps s of None \<Rightarrow> s | Some t \<Rightarrow> trimLeftRunes ps t)"
  by pat_completeness auto
termination
proof (relation "measure (\<lambda>(ps, s). length s)")
  show "wf (measure (\<lambda>(ps, s). length s))"
    by simp
next
  fix ps :: "string list" and s t :: string
  assume "stripOne ps s = Some t"
  then have "length t < length s"
    by (induction ps) (auto split: if_splits simp: prefix_def)
  then show "((ps, t), (ps, s)) \<in> measure (\<lambda>(ps, s). length s)"
    by simp
qed

declare trimLeftRunes.simps [simp del]

definition TrimSpace :: "string \<Rightarrow> string" where
  "TrimSpace s = rev (trimLeftRunes (map rev spaceRunes) (rev (trimLeftRunes spaceRunes s)))"

text \<open>\<open>strings.TrimRight(s, "/")\<close>, the only cut set the program uses.\<close>

definition TrimRightSlash :: "string \<Rightarrow> string" where
  "TrimRightSlash s = rev (dropWhile (\<lambda>c. c = CHR ''/'') (rev s))"

section \<open>The OpenAI-compatible provider (internal/providers/openai.go)\<close>

subsection \<open>Data\<close>

text \<open>
  Modelled from the spec: the declarations of \<open>providers.Message\<close>, \<open>ToolCall\<close>,
  \<open>ToolDefinition\<close> and \<open>LLMResponse\<close> are in another file of the package.
  The records have the fields the spec's data model gives them (a tool call: id, tool name,
  parsed arguments; a provider response: textual content, the flag "has tool calls", the
  ordered list of tool calls), under the names \<open>Chat\<close> and \<open>BuildMessages\<close> use.

  The type parameter \<open>'v\<close> stands for the Go values of type \<open>map[string]interface{}\<close>
  (parsed tool arguments, parameter schemas). The provider never looks inside them; it only
  compares a schema with \<open>nil\<close>, which is \<open>None\<close> here.
\<close>

record 'v ToolCall =
  ID :: string
  Name :: string
  Arguments :: 'v

record 'v Message =
  Role :: string
  Content :: string
  ToolCallID :: string
  ToolCalls :: "'v ToolCall list"

record 'v ToolDefinition =
  tool_Name :: string
  tool_Description :: string
  tool_Parameters :: "'v option"

record 'v LLMResponse =
  resp_Content :: string
  HasToolCalls :: bool
  resp_ToolCalls :: "'v ToolCall list"

record OpenAIProvider =
  APIKey :: string
  APIBase :: string
  ClientTimeout :: "64 word"

record toolCallFunctionJSON =
  fn_Name :: string
  fn_Arguments :: string

record toolCallJSON =
  tcj_ID :: string
  tcj_Type :: string
  tcj_Function :: toolCallFunctionJSON

record messageJSON =
  mj_Role :: string
  mj_Content :: string
  mj_ToolCallID :: string
  mj_ToolCalls :: "toolCallJSON list"

record 'v functionDef =
  fd_Name :: string
  fd_Description :: string
  fd_Parameters :: 'v

record 'v toolWrapper =
  tw_Type :: string
  tw_Function :: "'v functionDef"

record 'v chatRequest =
  Model :: string
  Messages :: "messageJSON list"
  Tools :: "'v toolWrapper list"

record messageResponseJSON =
  mr_Role :: string
  mr_Content :: string
  mr_ToolCalls :: "toolCallJSON list"

record choice =
  choice_Message :: messageResponseJSON

record chatResponse =
  Choices :: "choice list"

record http_request =
  req_Method :: string
  req_URL :: string
  req_Header :: "(string \<times> string) list"
  req_Body :: string

record http_response =
  StatusCode :: int
  Status :: string
  Body :: string

text \<open>
  Every way \<open>Chat\<close> returns a non-nil error, with the message of the error it passes on.
\<close>

datatype chat_error =
  APIKeyNotConfigured
  | MarshalFailed string
  | NewRequestFailed string
  | TransportFailed string
  | APIError string
  | DecodeFailed string
  | NoChoices

text \<open>
  What \<open>Chat\<close> calls outside the program: \<open>encoding/json\<close> and \<open>net/http\<close>. Each call is a
  field; a failing call returns its error message (\<open>Inl\<close>, or \<open>Some\<close> where the call
  returns nothing else). \<open>MarshalArgs\<close> is \<open>json.Marshal(tc.Arguments)\<close> with its error
  discarded, as the source does. \<open>ClientDo\<close> is \<open>p.Client.Do\<close> followed by reading the body;
  a cancelled context or an expired timeout is one of its errors. \<open>defaultParameters\<close> is
  the literal \<open>{"type": "object", "properties": {}}\<close>.
\<close>

record 'v provider_env =
  MarshalArgs :: "'v \<Rightarrow> string"
  MarshalRequest :: "'v chatRequest \<Rightarrow> string + string"
  NewRequest :: "string \<Rightarrow> string \<Rightarrow> string option"
  ClientDo :: "http_request \<Rightarrow> string + http_response"
  DecodeResponse :: "string \<Rightarrow> string + chatResponse"
  UnmarshalArgs :: "string \<Rightarrow> 'v option"
  defaultParameters :: 'v

subsection \<open>NewOpenAIProvider and Chat\<close>

text \<open>
  \<open>timeoutSecs\<close> is a Go \<open>int\<close> (64 bits on the platforms the Makefile builds for), and
  the client's timeout is the \<open>time.Duration\<close> (an \<open>int64\<close> of nanoseconds)
  \<open>time.Duration(timeoutSecs) * time.Second\<close>: the product wraps around.
\<close>

definition NewOpenAIProvider :: "string \<Rightarrow> string \<Rightarrow> 64 word \<Rightarrow> OpenAIProvider" where
  "NewOpenAIProvider apiKey apiBase0 timeoutSecs0 =
    (let apiBase = (if apiBase0 = [] then ''https://api.openai.com/v1'' else apiBase0);
         timeoutSecs = (if sint timeoutSecs0 \<le> 1 then 60 else timeoutSecs0)
     in \<lparr>APIKey = apiKey, APIBase = TrimRightSlash apiBase,
         ClientTimeout = timeoutSecs * 1000000000\<rparr>)"

definition GetDefaultModel :: string where
  "GetDefaultModel = ''gpt-4o-mini''"

definition LLMResponse_zero :: "'v LLMResponse" where
  "LLMResponse_zero = \<lparr>resp_Content = [], HasToolCalls = False, resp_ToolCalls = []\<rparr>"

text \<open>The loops of lines 99-114 and 119-132: each appends to the slice it builds.\<close>

fun appendToolCalls ::
  "'v provider_env \<Rightarrow> 'v ToolCall list \<Rightarrow> toolCallJSON list \<Rightarrow> toolCallJSON list" where
  "appendToolCalls env [] acc = acc"
| "appendToolCalls env (tc # tcs) acc =
     appendToolCalls env tcs
       (acc @ [\<lparr>tcj_ID = ID tc, tcj_Type = ''function'',
                tcj_Function = \<lparr>fn_Name = Name tc,
                                fn_Arguments = MarshalArgs env (Arguments tc)\<rparr>\<rparr>])"

fun appendMessages ::
  "'v provider_env \<Rightarrow> 'v Message list \<Rightarrow> messageJSON list \<Rightarrow> messageJSON list" where
  "appendMessages env [] acc = acc"
| "appendMessages env (m # ms) acc =
     appendMessages env ms
       (acc @ [\<lparr>mj_Role = Role m, mj_Content = Content m, mj_ToolCallID = ToolCallID m,
                mj_ToolCalls = appendToolCalls env (ToolCalls m) []\<rparr>])"

fun appendTools ::
  "'v provider_env \<Rightarrow> 'v ToolDefinition list \<Rightarrow> 'v toolWrapper list \<Rightarrow> 'v toolWrapper list" where
  "appendTools env [] acc = acc"
| "appendTools env (t # ts) acc =
     appendTools env ts
       (acc @ [\<lparr>tw_Type = ''function'',
                tw_Function = \<lparr>fd_Name = tool_Name t, fd_Description = tool_Description t,
                               fd_Parameters = (case tool_Parameters t of
                                                  None \<Rightarrow> defaultParameters env
                                                | Some params \<Rightarrow> params)\<rparr>\<rparr>])"

text \<open>Lines 94-133: the request body.\<close>

definition buildRequest ::
  "'v provider_env \<Rightarrow> 'v Message list \<Rightarrow> 'v ToolDefinition list \<Rightarrow> string \<Rightarrow> 'v chatRequest" where
  "buildRequest env messages tools model =
    \<lparr>Model = (if model = [] then GetDefaultModel else model),
     Messages = appendMessages env messages [],
     Tools = (if tools \<noteq> [] then appendTools env tools [] else [])\<rparr>"

text \<open>Lines 140-146: the POST request with its two headers.\<close>

definition chatURL :: "OpenAIProvider \<Rightarrow> string" where
  "chatURL p = APIBase p @ ''/chat/completions''"

definition httpRequest :: "OpenAIProvider \<Rightarrow> string \<Rightarrow> http_request" where
  "httpRequest p b =
    \<lparr>req_Method = ''POST'', req_URL = chatURL p,
     req_Header = [(''Content-Type'', ''application/json''),
                   (''Authorization'', ''Bearer '' @ APIKey p)],
     req_Body = b\<rparr>"

text \<open>Lines 178-185: the tool calls whose arguments parse, appended in the order read.\<close>

fun parseToolCalls ::
  "'v provider_env \<Rightarrow> toolCallJSON list \<Rightarrow> 'v ToolCall list \<Rightarrow> 'v ToolCall list" where
  "parseToolCalls env [] tcs = tcs"
| "parseToolCalls env (tc # rest) tcs =
     (case UnmarshalArgs env (fn_Arguments (tcj_Function tc)) of
        None \<Rightarrow> parseToolCalls env rest tcs
      | Some parsed \<Rightarrow>
          parseToolCalls env rest
            (tcs @ [\<lparr>ID = tcj_ID tc, Name = fn_Name (tcj_Function tc), Arguments = parsed\<rparr>]))"

text \<open>Lines 174-192: the response built from the first choice's message.\<close>

definition parseResponse ::
  "'v provider_env \<Rightarrow> messageResponseJSON \<Rightarrow> 'v LLMResponse \<times> chat_error option" where
  "parseResponse env msg =
    (if mr_ToolCalls msg \<noteq> [] then
       (let tcs = parseToolCalls env (mr_ToolCalls msg) [] in
        if tcs \<noteq> [] then
          (\<lparr>resp_Content = TrimSpace (mr_Content msg), HasToolCalls = True,
            resp_ToolCalls = tcs\<rparr>, None)
        else
          (\<lparr>resp_Content = TrimSpace (mr_Content msg), HasToolCalls = False,
            resp_ToolCalls = []\<rparr>, None))
     else
       (\<lparr>resp_Content = TrimSpace (mr_Content msg), HasToolCalls = False,
         resp_ToolCalls = []\<rparr>, None))"

text \<open>
  \<open>Chat\<close> returns the Go pair \<open>(LLMResponse, error)\<close>; \<open>None\<close> is the \<open>nil\<close> error.
\<close>

definition Chat ::
  "'v provider_env \<Rightarrow> OpenAIProvider \<Rightarrow> 'v Message list \<Rightarrow> 'v ToolDefinition list \<Rightarrow> string
     \<Rightarrow> 'v LLMResponse \<times> chat_error option" where
  "Chat env p messages tools model =
    (if APIKey p = [] then (LLMResponse_zero, Some APIKeyNotConfigured)
     else
       case MarshalRequest env (buildRequest env messages tools model) of
         Inl err \<Rightarrow> (LLMResponse_zero, Some (MarshalFailed err))
       | Inr b \<Rightarrow>
          (case NewRequest env ''POST'' (chatURL p) of
             Some err \<Rightarrow> (LLMResponse_zero, Some (NewRequestFailed err))
           | None \<Rightarrow>
              (case ClientDo env (httpRequest p b) of
                 Inl err \<Rightarrow> (LLMResponse_zero, Some (TransportFailed err))
               | Inr resp \<Rightarrow>
                  if StatusCode resp < 200 \<or> StatusCode resp \<ge> 300 then
                    (let body = TrimSpace (Body resp) in
                     if body = [] then
                       (LLMResponse_zero, Some (APIError (''OpenAI API error: '' @ Status resp)))
                     else
                       (LLMResponse_zero,
                        Some (APIError (''OpenAI API error: '' @ Status resp @ '' - '' @ body))))
                  else
                    (case DecodeResponse env (Body resp) of
                       Inl err \<Rightarrow> (LLMResponse_zero, Some (DecodeFailed err))
                     | Inr out \<Rightarrow>
                        (case Choices out of
                           [] \<Rightarrow> (LLMResponse_zero, Some NoChoices)
                         | c # _ \<Rightarrow> parseResponse env (choice_Message c))))))"

text \<open>
  \<open>toToolCall\<close> states what one tool call of the provider's message becomes: the
  \<open>ToolCall\<close> with its id, its function name and its parsed arguments, or nothing when the
  arguments do not parse. It is used to state the results, not by \<open>Chat\<close>.
\<close>

definition parseable :: "'v provider_env \<Rightarrow> toolCallJSON \<Rightarrow> bool" where
  "parseable env tc = (UnmarshalArgs env (fn_Arguments (tcj_Function tc)) \<noteq> None)"

definition toToolCall :: "'v provider_env \<Rightarrow> toolCallJSON \<Rightarrow> 'v ToolCall option" where
  "toToolCall env tc =
    map_option
      (\<lambda>parsed. \<lparr>ID = tcj_ID tc, Name = fn_Name (tcj_Function tc), Arguments = parsed\<rparr>)
      (UnmarshalArgs env (fn_Arguments (tcj_Function tc)))"

section \<open>The context builder (BuildMessages, package agent)\<close>

subsection \<open>Data\<close>

text \<open>
  Modelled from the spec: \<open>memory.MemoryItem\<close>, \<open>memory.Ranker\<close>, \<open>skills.Skill\<close> and
  \<open>skills.Loader\<close> are declared in other packages of the repository. The records hold the
  fields \<open>BuildMessages\<close> reads; the ranker is the function \<open>Rank(query, items, topK)\<close> or
  \<open>nil\<close> (\<open>None\<close>); a loader is made from the workspace path alone
  (\<open>skills.NewLoader(workspace)\<close>), so the builder's loader is that path.
\<close>

record MemoryItem =
  mem_Kind :: string
  mem_Text :: string

record Skill =
  skill_Name :: string
  skill_Description :: string
  skill_Content :: string

record ContextBuilder =
  workspace :: string
  ranker :: "(string \<Rightarrow> MemoryItem list \<Rightarrow> int \<Rightarrow> MemoryItem list) option"
  topK :: int
  skillsLoader :: string

text \<open>
  What \<open>BuildMessages\<close> reads from outside: \<open>os.ReadFile\<close> (\<open>Inl\<close> its error),
  \<open>filepath.Join\<close>, the \<open>%q\<close> verb of \<open>fmt.Sprintf\<close> (\<open>strconv.Quote\<close>), and
  \<open>skillsLoader.LoadAll()\<close>, which returns the Go pair of the skills and an error. The
  line \<open>log.Printf\<close> writes on such an error is not part of the result and is left out.
\<close>

record context_env =
  ReadFile :: "string \<Rightarrow> string + string"
  Join :: "string \<Rightarrow> string \<Rightarrow> string"
  Quote :: "string \<Rightarrow> string"
  LoadAll :: "string \<Rightarrow> Skill list \<times> string option"

subsection \<open>BuildMessages\<close>

definition systemMessage :: "string \<Rightarrow> 'v Message" where
  "systemMessage c = \<lparr>Role = ''system'', Content = c, ToolCallID = [], ToolCalls = []\<rparr>"

definition userMessage :: "string \<Rightarrow> 'v Message" where
  "userMessage c = \<lparr>Role = ''user'', Content = c, ToolCallID = [], ToolCalls = []\<rparr>"

definition systemPrompt :: string where
  "systemPrompt =
    ''You are SMCHouseBot, a helpful assistant. Always reply in Brazilian Portuguese unless '' @
    ''the user explicitly asks for another language. Use a dry, sarcastic tone inspired by '' @
    ''Dr. House, while remaining helpful, precise, and technically competent.''"

definition bootstrapFiles :: "string list" where
  "bootstrapFiles = [''SOUL.md'', ''AGENTS.md'', ''USER.md'', ''TOOLS.md'']"

definition channelNotice :: "context_env \<Rightarrow> string \<Rightarrow> string \<Rightarrow> string" where
  "channelNotice env channel chatID =
    ''You are operating on channel='' @ Quote env channel @ '' chatID='' @ Quote env chatID @
    ''. You have full access to all registered tools regardless of the channel. Always use '' @
    ''your tools when the user asks you to perform actions (file operations, shell commands, '' @
    ''web fetches, etc.).''"

definition memoryInstruction :: string where
  \<open>memoryInstruction =
    ''If you decide something should be remembered, call the tool 'write_memory' with JSON '' @
    ''arguments: {"target": "today"|"long", "content": "...", "append": true|false}. Use a '' @
    ''tool call rather than plain chat text when writing memory.''\<close>

text \<open>Lines 64-74: one system turn per bootstrap file that can be read and is not blank.\<close>

fun loadBootstrap ::
  "context_env \<Rightarrow> string \<Rightarrow> string list \<Rightarrow> 'v Message list \<Rightarrow> 'v Message list" where
  "loadBootstrap env ws [] msgs = msgs"
| "loadBootstrap env ws (name # names) msgs =
     (case ReadFile env (Join env ws name) of
        Inl err \<Rightarrow> loadBootstrap env ws names msgs
      | Inr data \<Rightarrow>
          (let content = TrimSpace data in
           if content \<noteq> [] then
             loadBootstrap env ws names
               (msgs @ [systemMessage (''## '' @ name @ ''\<newline>\<newline>'' @ content)])
           else loadBootstrap env ws names msgs))"

text \<open>Lines 92-94 and 111-113: the two string builders.\<close>

fun writeSkills :: "Skill list \<Rightarrow> string \<Rightarrow> string" where
  "writeSkills [] sb = sb"
| "writeSkills (skill # rest) sb =
     writeSkills rest
       (sb @ ''\<newline>## '' @ skill_Name skill @ ''\<newline>'' @ skill_Description skill @
          ''\<newline>\<newline>'' @ skill_Content skill @ ''\<newline>'')"

fun writeMemories :: "MemoryItem list \<Rightarrow> string \<Rightarrow> string" where
  "writeMemories [] sb = sb"
| "writeMemories (m # rest) sb =
     writeMemories rest (sb @ ''- '' @ mem_Text m @ '' ('' @ mem_Kind m @ '')\<newline>'')"

text \<open>Lines 104-107: the memories shown, ranked when there is a ranker and a memory.\<close>

definition selectMemories :: "ContextBuilder \<Rightarrow> string \<Rightarrow> MemoryItem list \<Rightarrow> MemoryItem list" where
  "selectMemories cb currentMessage memories =
    (case ranker cb of
       Some r \<Rightarrow> if length memories > 0 then r currentMessage memories (topK cb) else memories
     | None \<Rightarrow> memories)"

text \<open>Lines 118-123: every non-empty history string becomes a turn of role "user".\<close>

fun replayHistory :: "string list \<Rightarrow> 'v Message list \<Rightarrow> 'v Message list" where
  "replayHistory [] msgs = msgs"
| "replayHistory (h # hs) msgs =
     (if length h > 0 then replayHistory hs (msgs @ [userMessage h])
      else replayHistory hs msgs)"

definition BuildMessages ::
  "context_env \<Rightarrow> ContextBuilder \<Rightarrow> string list \<Rightarrow> string \<Rightarrow> string \<Rightarrow> string \<Rightarrow> string
     \<Rightarrow> MemoryItem list \<Rightarrow> 'v Message list" where
  "BuildMessages env cb history currentMessage channel chatID memoryContext memories =
    (let msgs0 = [systemMessage systemPrompt];
         msgs1 = loadBootstrap env (workspace cb) bootstrapFiles msgs0;
         msgs2 = msgs1 @ [systemMessage (channelNotice env channel chatID)];
         msgs3 = msgs2 @ [systemMessage memoryInstruction];
         loadedSkills = fst (LoadAll env (skillsLoader cb));
         msgs4 = (if length loadedSkills > 0
                  then msgs3 @ [systemMessage (writeSkills loadedSkills ''Available Skills:\<newline>'')]
                  else msgs3);
         msgs5 = (if memoryContext \<noteq> []
                  then msgs4 @ [systemMessage (''Memory:\<newline>'' @ memoryContext)]
                  else msgs4);
         selected = selectMemories cb currentMessage memories;
         msgs6 = (if length selected > 0
                  then msgs5 @ [systemMessage (writeMemories selected ''Relevant memories:\<newline>'')]
                  else msgs5);
         msgs7 = replayHistory history msgs6
     in msgs7 @ [userMessage currentMessage])"

text \<open>
  The parts of the prompt, one definition per optional input, used to state the order of
  the result: each is the turn its input contributes, or no turn.
\<close>

definition bootstrapTurn :: "context_env \<Rightarrow> string \<Rightarrow> string \<Rightarrow> 'v Message list" where
  "bootstrapTurn env ws name =
    (case ReadFile env (Join env ws name) of
       Inl err \<Rightarrow> []
     | Inr data \<Rightarrow>
        if TrimSpace data = [] then []
        else [systemMessage (''## '' @ name @ ''\<newline>\<newline>'' @ TrimSpace data)])"

definition skillsTurn :: "Skill list \<Rightarrow> 'v Message list" where
  "skillsTurn loadedSkills =
    (if loadedSkills = [] then []
     else [systemMessage (writeSkills loadedSkills ''Available Skills:\<newline>'')])"

definition memoryContextTurn :: "string \<Rightarrow> 'v Message list" where
  "memoryContextTurn memoryContext =
    (if memoryContext = [] then [] else [systemMessage (''Memory:\<newline>'' @ memoryContext)])"

definition rankedMemoriesTurn :: "MemoryItem list \<Rightarrow> 'v Message list" where
  "rankedMemoriesTurn selected =
    (if selected = [] then []
     else [systemMessage (writeMemories selected ''Relevant memories:\<newline>'')])"

definition systemTurns ::
  "context_env \<Rightarrow> ContextBuilder \<Rightarrow> string \<Rightarrow> string \<Rightarrow> string \<Rightarrow> string \<Rightarrow> MemoryItem list
     \<Rightarrow> 'v Message list" where
  "systemTurns env cb currentMessage channel chatID memoryContext memories =
    [systemMessage systemPrompt] @
    concat (map (bootstrapTurn env (workspace cb)) bootstrapFiles) @
    [systemMessage (channelNotice env channel chatID), systemMessage memoryInstruction] @
    skillsTurn (fst (LoadAll env (skillsLoader cb))) @
    memoryContextTurn memoryContext @
    rankedMemoriesTurn (selectMemories cb currentMessage memories)"

text \<open>
  The same parts as texts: the content each optional input contributes to the system
  block, or none. They state the result without the helpers \<open>BuildMessages\<close> is written
  with.
\<close>

definition bootstrapContent :: "context_env \<Rightarrow> string \<Rightarrow> string \<Rightarrow> string list" where
  "bootstrapContent env ws name =
    (case ReadFile env (Join env ws name) of
       Inl err \<Rightarrow> []
     | Inr data \<Rightarrow>
        if TrimSpace data = [] then []
        else [''## '' @ name @ ''\<newline>\<newline>'' @ TrimSpace data])"

definition skillsContent :: "Skill list \<Rightarrow> string list" where
  "skillsContent loadedSkills =
    (if loadedSkills = [] then []
     else [''Available Skills:\<newline>'' @
           concat (map (\<lambda>skill. ''\<newline>## '' @ skill_Name skill @ ''\<newline>'' @
                                skill_Description skill @ ''\<newline>\<newline>'' @
                                skill_Content skill @ ''\<newline>'') loadedSkills)])"

definition memoryContextContent :: "string \<Rightarrow> string list" where
  "memoryContextContent memoryContext =
    (if memoryContext = [] then [] else [''Memory:\<newline>'' @ memoryContext])"

definition rankedMemoriesContent :: "MemoryItem list \<Rightarrow> string list" where
  "rankedMemoriesContent selected =
    (if selected = [] then []
     else [''Relevant memories:\<newline>'' @
           concat (map (\<lambda>m. ''- '' @ mem_Text m @ '' ('' @ mem_Kind m @ '')\<newline>'') selected)])"

definition hasSystemTurn :: "string \<Rightarrow> 'v Message list \<Rightarrow> bool" where
  "hasSystemTurn pre msgs = list_ex (\<lambda>m. Role m = ''system'' \<and> prefix pre (Content m)) msgs"

section \<open>The Telegram adapter (StartTelegramWithBase, package channels)\<close>

subsection \<open>Data\<close>

text \<open>
  Go's \<open>int64\<close> is a 64-bit word read as a signed number (\<open>sint\<close>); \<open>+\<close> wraps around.
  \<open>strconv.FormatInt(i, 10)\<close> writes the decimal digits, after a minus sign when negative.
\<close>

definition digitChar :: "nat \<Rightarrow> char" where
  "digitChar d = char_of (48 + d)"

function formatNat :: "nat \<Rightarrow> string" where
  "formatNat n = (if n < 10 then [digitChar n] else formatNat (n div 10) @ [digitChar (n mod 10)])"
  by pat_completeness auto
termination
  by (relation "measure (\<lambda>n. n)") auto

declare formatNat.simps [simp del]

definition FormatInt :: "int \<Rightarrow> string" where
  "FormatInt i = (if i < 0 then CHR ''-'' # formatNat (nat (- i)) else formatNat (nat i))"

text \<open>
  The decoded \<open>getUpdates\<close> result. \<open>From\<close> and \<open>Message\<close> are pointers in the source:
  \<open>None\<close> is \<open>nil\<close>.
\<close>

record tg_message =
  MessageID :: "64 word"
  From :: "64 word option"
  Chat_ID :: "64 word"
  msg_Text :: string

record tg_update =
  UpdateID :: "64 word"
  upd_Message :: "tg_message option"

text \<open>
  Modelled from the spec: \<open>chat.Inbound\<close> is declared in another package of the repository;
  the record has the fields the adapter fills in (the spec's inbound message: channel tag,
  sender id, conversation id, text). \<open>Timestamp\<close> is \<open>time.Now()\<close>, the wall clock, and is
  left out.
\<close>

record Inbound =
  Channel :: string
  SenderID :: string
  ChatID :: string
  in_Content :: string

text \<open>
  The state of the inbound polling goroutine: its \<open>offset\<close> variable, what it has sent on
  \<open>hub.In\<close> (each message with the id of the update it came from, kept for the proofs),
  the lines it has logged, every \<open>getUpdates\<close> exchange so far (the offset sent and the
  updates received, none for a failed exchange), and whether it has returned.
\<close>

record poll_state =
  offset :: "64 word"
  sent :: "(64 word \<times> Inbound) list"
  logs :: "string list"
  exchanges :: "(64 word \<times> tg_update list) list"
  stopped :: bool

definition hub_In :: "poll_state \<Rightarrow> Inbound list" where
  "hub_In st = map snd (sent st)"

definition pollStart :: poll_state where
  "pollStart = \<lparr>offset = 0, sent = [], logs = [], exchanges = [], stopped = False\<rparr>"

subsection \<open>The inbound polling loop\<close>

text \<open>Lines 85-88: the set of allowed user ids (a Go map with empty values).\<close>

definition allowedSet :: "string list \<Rightarrow> string set" where
  "allowedSet allowFrom = fold (\<lambda>id allowed. insert id allowed) allowFrom {}"

definition senderID :: "tg_message \<Rightarrow> string" where
  "senderID m = (case From m of None \<Rightarrow> [] | Some uid \<Rightarrow> FormatInt (sint uid))"

text \<open>
  Lines 136-161, the body of the loop over the updates of one response. The send on
  \<open>hub.In\<close> is taken to complete (the hub's consumer is running).
\<close>

definition handleUpdate :: "string set \<Rightarrow> tg_update \<Rightarrow> poll_state \<Rightarrow> poll_state" where
  "handleUpdate allowed upd st =
    (let st1 = (if sint (UpdateID upd) \<ge> sint (offset st)
                then st\<lparr>offset := UpdateID upd + 1\<rparr> else st)
     in case upd_Message upd of
          None \<Rightarrow> st1
        | Some m \<Rightarrow>
           (let fromID = senderID m in
            if allowed \<noteq> {} \<and> fromID \<notin> allowed then
              st1\<lparr>logs := logs st1 @
                    [''telegram: dropping message from unauthorized user '' @ fromID]\<rparr>
            else
              st1\<lparr>sent := sent st1 @
                    [(UpdateID upd,
                      \<lparr>Channel = ''telegram'', SenderID = fromID,
                       ChatID = FormatInt (sint (Chat_ID m)), in_Content = msg_Text m\<rparr>)]\<rparr>))"

fun processUpdates :: "string set \<Rightarrow> tg_update list \<Rightarrow> poll_state \<Rightarrow> poll_state" where
  "processUpdates allowed [] st = st"
| "processUpdates allowed (upd # rest) st = processUpdates allowed rest (handleUpdate allowed upd st)"

text \<open>
  Lines 95-163. The loop runs until the context is done, so a run is driven by what each
  iteration meets: the context done at the \<open>select\<close>, a failed \<open>PostForm\<close>, a body that is no
  JSON, or a decoded list of updates. A run over a finite list of rounds is the goroutine
  observed up to that point; \<open>stopped\<close> tells whether it has returned. The one-second
  sleep after a failed request is not modelled.
\<close>

datatype poll_round =
  CtxDone
  | PostFormError string
  | InvalidJSON string
  | GotUpdates "tg_update list"

fun inboundPolling :: "string set \<Rightarrow> poll_round list \<Rightarrow> poll_state \<Rightarrow> poll_state" where
  "inboundPolling allowed [] st = st"
| "inboundPolling allowed (CtxDone # rest) st =
     st\<lparr>logs := logs st @ [''telegram: stopping inbound polling''], stopped := True\<rparr>"
| "inboundPolling allowed (PostFormError err # rest) st =
     inboundPolling allowed rest
       (st\<lparr>logs := logs st @ [''telegram getUpdates error: '' @ err],
           exchanges := exchanges st @ [(offset st, [])]\<rparr>)"
| "inboundPolling allowed (InvalidJSON err # rest) st =
     inboundPolling allowed rest
       (st\<lparr>logs := logs st @ [''telegram: invalid getUpdates response: '' @ err],
           exchanges := exchanges st @ [(offset st, [])]\<rparr>)"
| "inboundPolling allowed (GotUpdates updates # rest) st =
     inboundPolling allowed rest
       (processUpdates allowed updates (st\<lparr>exchanges := exchanges st @ [(offset st, updates)]\<rparr>))"

subsection \<open>StartTelegramWithBase\<close>

text \<open>
  What \<open>StartTelegramWithBase\<close> does before it returns, in program order: it starts the
  inbound polling goroutine (lines 93-164), subscribes to the hub (line 168) and starts the
  outbound sender goroutine (lines 171-211). The inbound polling goroutine sends on
  \<open>hub.In\<close>: it is the producer of the channel. The outbound sender receives from the
  subscription.
\<close>

datatype goroutine = InboundPolling "string set" | OutboundSender

datatype startup_action = Go goroutine | HubSubscribe string

fun isProducerStart :: "startup_action \<Rightarrow> bool" where
  "isProducerStart (Go (InboundPolling allowed)) = True"
| "isProducerStart (Go OutboundSender) = False"
| "isProducerStart (HubSubscribe tag) = False"

definition StartTelegramWithBase ::
  "string \<Rightarrow> string \<Rightarrow> string list \<Rightarrow> startup_action list \<times> string option" where
  "StartTelegramWithBase token base allowFrom =
    (if base = [] then ([], Some ''base URL is required'')
     else
       (let allowed = allowedSet allowFrom in
        ([Go (InboundPolling allowed), HubSubscribe ''telegram'', Go OutboundSender], None)))"

definition StartTelegram :: "string \<Rightarrow> string list \<Rightarrow> startup_action list \<times> string option" where
  "StartTelegram token allowFrom =
    (if token = [] then ([], Some ''telegram token not provided'')
     else StartTelegramWithBase token (''https://api.telegram.org/bot'' @ token) allowFrom)"

text \<open>\<open>actionsBefore a acts\<close>: what was done before \<open>a\<close> was first done.\<close>

definition actionsBefore :: "startup_action \<Rightarrow> startup_action list \<Rightarrow> startup_action list" where
  "actionsBefore a acts = takeWhile (\<lambda>x. x \<noteq> a) acts"

text \<open>What an update with a message puts on \<open>hub.In\<close> when it is let through.\<close>

definition inboundOf :: "tg_message \<Rightarrow> Inbound" where
  "inboundOf m =
    \<lparr>Channel = ''telegram'', SenderID = senderID m, ChatID = FormatInt (sint (Chat_ID m)),
     in_Content = msg_Text m\<rparr>"

definition maxInt64 :: "64 word" where
  "maxInt64 = 0x7FFFFFFFFFFFFFFF"

text \<open>
  \<open>delivered allowed upd\<close>: what the loop body sends on \<open>hub.In\<close> for one update, if
  anything. The three predicates below are over the exchanges of a run: no update id is the
  largest \<open>int64\<close>; the server honours the offset (it returns only updates whose id is at
  least the offset asked for, each update once); and the invariant of the polling loop.
\<close>

definition delivered :: "string set \<Rightarrow> tg_update \<Rightarrow> (64 word \<times> Inbound) option" where
  "delivered allowed upd =
    (case upd_Message upd of
       None \<Rightarrow> None
     | Some m \<Rightarrow> if allowed \<noteq> {} \<and> senderID m \<notin> allowed then None
                 else Some (UpdateID upd, inboundOf m))"

definition noMaxIds :: "(64 word \<times> tg_update list) list \<Rightarrow> bool" where
  "noMaxIds ex = list_all (\<lambda>(off, us). list_all (\<lambda>u. UpdateID u \<noteq> maxInt64) us) ex"

definition honoursOffset :: "(64 word \<times> tg_update list) list \<Rightarrow> bool" where
  "honoursOffset ex =
    list_all (\<lambda>(off, us). list_all (\<lambda>u. sint off \<le> sint (UpdateID u)) us \<and>
                          distinct (map UpdateID us)) ex"

definition pollInv :: "poll_state \<Rightarrow> bool" where
  "pollInv st =
    (sorted (map sint (map fst (exchanges st) @ [offset st])) \<and>
     list_all (\<lambda>(off, us). list_all (\<lambda>u. sint (UpdateID u) < sint (offset st)) us)
       (exchanges st) \<and>
     (honoursOffset (exchanges st) \<longrightarrow>
        distinct (map fst (sent st)) \<and>
        list_all (\<lambda>(uid, m). sint uid < sint (offset st)) (sent st)))"

section \<open>Concrete inputs\<close>

text \<open>
  Inputs on which the theorems below are instantiated. In \<open>demoEnv\<close> the parsed arguments
  are kept as their text, and \<open>demoUnmarshal\<close> accepts two JSON objects and rejects every
  other text; the server answers every request with the given status and decoded body.
\<close>

definition demoUnmarshal :: "string \<Rightarrow> string option" where
  \<open>demoUnmarshal s = (if s = ''{}'' \<or> s = ''{"v":"42"}'' then Some s else None)\<close>

definition demoEnv :: "int \<Rightarrow> chatResponse \<Rightarrow> string provider_env" where
  "demoEnv status out =
    \<lparr>MarshalArgs = (\<lambda>v. v),
     MarshalRequest = (\<lambda>req. Inr ''{}''),
     NewRequest = (\<lambda>method url. None),
     ClientDo = (\<lambda>req. Inr \<lparr>StatusCode = status, Status = ''status'', Body = ''body''\<rparr>),
     DecodeResponse = (\<lambda>body. Inr out),
     UnmarshalArgs = demoUnmarshal,
     defaultParameters = ''{}''\<rparr>"

definition demoProvider :: OpenAIProvider where
  "demoProvider =
    \<lparr>APIKey = ''sk-test'', APIBase = ''http://localhost'', ClientTimeout = 60000000000\<rparr>"

definition demoCall :: "string \<Rightarrow> string \<Rightarrow> string \<Rightarrow> toolCallJSON" where
  "demoCall i n a =
    \<lparr>tcj_ID = i, tcj_Type = ''function'', tcj_Function = \<lparr>fn_Name = n, fn_Arguments = a\<rparr>\<rparr>"

definition demoReply :: "string \<Rightarrow> toolCallJSON list \<Rightarrow> chatResponse" where
  "demoReply c tcs =
    \<lparr>Choices = [\<lparr>choice_Message = \<lparr>mr_Role = ''assistant'', mr_Content = c, mr_ToolCalls = tcs\<rparr>\<rparr>]\<rparr>"

definition demoCalls :: "toolCallJSON list" where
  \<open>demoCalls =
    [demoCall ''call_1'' ''echo'' ''{"v":"42"}'', demoCall ''call_2'' ''echo'' ''not json'',
     demoCall ''call_3'' ''read'' ''{}'']\<close>

text \<open>
  A workspace in which only \<open>AGENTS.md\<close> can be read, a skills loader that fails, and a
  builder with no ranker.
\<close>

definition demoContextEnv :: context_env where
  "demoContextEnv =
    \<lparr>ReadFile = (\<lambda>path. if path = ''ws/AGENTS.md'' then Inr '' Be brief.\<newline>''
                        else Inl ''no such file or directory''),
     Join = (\<lambda>dir name. dir @ ''/'' @ name),
     Quote = (\<lambda>s. [CHR 0x22] @ s @ [CHR 0x22]),
     LoadAll = (\<lambda>ws. ([], Some ''permission denied''))\<rparr>"

definition demoBuilder :: ContextBuilder where
  "demoBuilder = \<lparr>workspace = ''ws'', ranker = None, topK = 3, skillsLoader = ''ws''\<rparr>"

text \<open>
  The same workspace with a loader that returns a skill together with an error; and a
  workspace where \<open>SOUL.md\<close> has text, \<open>TOOLS.md\<close> is blank, a skill loads, and the builder
  ranks by keeping the first \<open>topK\<close> memories.
\<close>

definition demoSkill :: Skill where
  "demoSkill =
    \<lparr>skill_Name = ''weather'', skill_Description = ''Forecasts'', skill_Content = ''Use wttr.in''\<rparr>"

definition demoErrSkillsEnv :: context_env where
  "demoErrSkillsEnv = demoContextEnv\<lparr>LoadAll := (\<lambda>ws. ([demoSkill], Some ''permission denied''))\<rparr>"

definition demoFullEnv :: context_env where
  "demoFullEnv =
    \<lparr>ReadFile = (\<lambda>path. if path = ''ws/SOUL.md'' then Inr ''Be dry.\<newline>''
                        else if path = ''ws/TOOLS.md'' then Inr ''  \<newline>''
                        else Inl ''no such file or directory''),
     Join = (\<lambda>dir name. dir @ ''/'' @ name),
     Quote = (\<lambda>s. [CHR 0x22] @ s @ [CHR 0x22]),
     LoadAll = (\<lambda>ws. ([demoSkill], None))\<rparr>"

definition demoFullBuilder :: ContextBuilder where
  "demoFullBuilder =
    \<lparr>workspace = ''ws'', ranker = Some (\<lambda>query items k. take (nat k) items), topK = 1,
     skillsLoader = ''ws''\<rparr>"

definition demoMemories :: "MemoryItem list" where
  "demoMemories =
    [\<lparr>mem_Kind = ''long'', mem_Text = ''likes tea''\<rparr>,
     \<lparr>mem_Kind = ''today'', mem_Text = ''was late''\<rparr>]"

text \<open>Updates with a message from a sender, and one without a message.\<close>

definition demoUpdate :: "64 word \<Rightarrow> 64 word \<Rightarrow> string \<Rightarrow> tg_update" where
  "demoUpdate uid sender txt =
    \<lparr>UpdateID = uid,
     upd_Message = Some \<lparr>MessageID = 1, From = Some sender, Chat_ID = 456, msg_Text = txt\<rparr>\<rparr>"

definition demoRounds :: "poll_round list" where
  "demoRounds =
    [GotUpdates [demoUpdate 1 123 ''hello'', demoUpdate 2 7 ''again''],
     PostFormError ''timeout'',
     GotUpdates [\<lparr>UpdateID = 5, upd_Message = None\<rparr>, demoUpdate 6 123 ''bye''],
     CtxDone]"

section \<open>Properties of the provider\<close>

lemma parseToolCalls_acc:
  "parseToolCalls env tcs acc = acc @ List.map_filter (toToolCall env) tcs"
  by (induction tcs arbitrary: acc) (auto simp: toToolCall_def split: option.splits)

lemma map_filter_toToolCall_Nil:
  "(List.map_filter (toToolCall env) tcs = []) = (\<forall>tc\<in>set tcs. \<not> parseable env tc)"
  by (induction tcs) (auto simp: toToolCall_def parseable_def split: option.splits)

lemma map_filter_toToolCall_ids:
  "map ID (List.map_filter (toToolCall env) tcs) = map tcj_ID (filter (parseable env) tcs)"
  by (induction tcs) (auto simp: toToolCall_def parseable_def split: option.splits)

lemma parseResponse_eq:
  "parseResponse env msg =
     (\<lparr>resp_Content = TrimSpace (mr_Content msg),
       HasToolCalls = (List.map_filter (toToolCall env) (mr_ToolCalls msg) \<noteq> []),
       resp_ToolCalls = List.map_filter (toToolCall env) (mr_ToolCalls msg)\<rparr>, None)"
  by (cases "mr_ToolCalls msg") (auto simp: parseResponse_def parseToolCalls_acc Let_def)

lemma Chat_cases:
  "Chat env p messages tools model =
    (if APIKey p = [] then (LLMResponse_zero, Some APIKeyNotConfigured)
     else
       case MarshalRequest env (buildRequest env messages tools model) of
         Inl err \<Rightarrow> (LLMResponse_zero, Some (MarshalFailed err))
       | Inr b \<Rightarrow>
          (case NewRequest env ''POST'' (chatURL p) of
             Some err \<Rightarrow> (LLMResponse_zero, Some (NewRequestFailed err))
           | None \<Rightarrow>
              (case ClientDo env (httpRequest p b) of
                 Inl err \<Rightarrow> (LLMResponse_zero, Some (TransportFailed err))
               | Inr resp \<Rightarrow>
                  if StatusCode resp < 200 \<or> StatusCode resp \<ge> 300 then
                    (LLMResponse_zero,
                     Some (APIError (''OpenAI API error: '' @ Status resp @
                        (if TrimSpace (Body resp) = [] then []
                         else '' - '' @ TrimSpace (Body resp)))))
                  else
                    (case DecodeResponse env (Body resp) of
                       Inl err \<Rightarrow> (LLMResponse_zero, Some (DecodeFailed err))
                     | Inr out \<Rightarrow>
                        (case Choices out of
                           [] \<Rightarrow> (LLMResponse_zero, Some NoChoices)
                         | c # cs \<Rightarrow> parseResponse env (choice_Message c))))))"
  by (auto simp: Chat_def Let_def split: sum.splits option.splits list.splits)

lemma Chat_success_cases:
  assumes "Chat env p messages tools model = (r, None)"
  shows "\<exists>b resp out c cs.
      APIKey p \<noteq> [] \<and>
      MarshalRequest env (buildRequest env messages tools model) = Inr b \<and>
      NewRequest env ''POST'' (chatURL p) = None \<and>
      ClientDo env (httpRequest p b) = Inr resp \<and>
      200 \<le> StatusCode resp \<and> StatusCode resp < 300 \<and>
      DecodeResponse env (Body resp) = Inr out \<and>
      Choices out = c # cs \<and>
      (r, None) = parseResponse env (choice_Message c)"
  using assms unfolding Chat_cases
  by (auto split: if_splits sum.splits option.splits list.splits)

text \<open>
  Claim C2. \<open>Chat\<close> returns a non-nil error exactly when a provider-level failure occurs:
  the API key is unset, the request body cannot be marshalled or the request cannot be
  built, the transport fails, the status is outside 200..299, the body cannot be decoded, or
  the decoded response has no choice. Each later failure presupposes that the earlier
  stages went through, as in the code. With every error the zero \<open>LLMResponse\<close> is returned:
  no partial response.
\<close>
theorem Chat_error_iff_provider_failure:
  "(snd (Chat env p messages tools model) \<noteq> None) =
     (APIKey p = [] \<or>
      (\<exists>err. MarshalRequest env (buildRequest env messages tools model) = Inl err) \<or>
      (\<exists>b. MarshalRequest env (buildRequest env messages tools model) = Inr b \<and>
         (NewRequest env ''POST'' (chatURL p) \<noteq> None \<or>
          (\<exists>err. ClientDo env (httpRequest p b) = Inl err) \<or>
          (\<exists>resp. ClientDo env (httpRequest p b) = Inr resp \<and>
             (StatusCode resp < 200 \<or> 300 \<le> StatusCode resp \<or>
              (\<exists>err. DecodeResponse env (Body resp) = Inl err) \<or>
              (\<exists>out. DecodeResponse env (Body resp) = Inr out \<and> Choices out = []))))))
   \<and> (snd (Chat env p messages tools model) \<noteq> None \<longrightarrow>
        fst (Chat env p messages tools model) = LLMResponse_zero)"
  unfolding Chat_cases parseResponse_eq
  by (auto split: sum.splits option.splits list.splits)

theorem Chat_error_iff_provider_failure_witness:
  "snd (Chat (demoEnv 500 (demoReply ''x'' [])) demoProvider [] [] []) \<noteq> None \<and>
   fst (Chat (demoEnv 500 (demoReply ''x'' [])) demoProvider [] [] []) = LLMResponse_zero \<and>
   snd (Chat (demoEnv 200 \<lparr>Choices = []\<rparr>) demoProvider [] [] []) \<noteq> None \<and>
   fst (Chat (demoEnv 200 \<lparr>Choices = []\<rparr>) demoProvider [] [] []) = LLMResponse_zero \<and>
   snd (Chat (demoEnv 200 (demoReply ''x'' [])) (demoProvider\<lparr>APIKey := []\<rparr>) [] [] []) \<noteq> None \<and>
   snd (Chat (demoEnv 200 (demoReply ''x'' [])) demoProvider [] [] []) = None"
  using Chat_error_iff_provider_failure [of "demoEnv 500 (demoReply ''x'' [])" demoProvider "[]" "[]" "[]"]
    Chat_error_iff_provider_failure [of "demoEnv 200 \<lparr>Choices = []\<rparr>" demoProvider "[]" "[]" "[]"]
    Chat_error_iff_provider_failure [of "demoEnv 200 (demoReply ''x'' [])" "demoProvider\<lparr>APIKey := []\<rparr>" "[]" "[]" "[]"]
    Chat_error_iff_provider_failure [of "demoEnv 200 (demoReply ''x'' [])" demoProvider "[]" "[]" "[]"]
  by (simp add: demoEnv_def demoProvider_def demoReply_def)

text \<open>
  Claim C3. A successful \<open>Chat\<close> (nil error) comes from a decoded response with a first
  choice; the result carries that choice's message content trimmed of white space, the
  has-tool-calls flag (set exactly when some tool call of the message has arguments that
  parse), and as tool calls those of the message whose arguments parse, in the message's
  order, each with its id, its function name and its parsed arguments
  (\<open>List.map_filter\<close> keeps the order of the list it filters).
\<close>
theorem Chat_success_response:
  assumes "Chat env p messages tools model = (r, None)"
  shows "\<exists>b resp out c cs.
      MarshalRequest env (buildRequest env messages tools model) = Inr b \<and>
      ClientDo env (httpRequest p b) = Inr resp \<and>
      DecodeResponse env (Body resp) = Inr out \<and>
      Choices out = c # cs \<and>
      resp_Content r = TrimSpace (mr_Content (choice_Message c)) \<and>
      HasToolCalls r = list_ex (parseable env) (mr_ToolCalls (choice_Message c)) \<and>
      resp_ToolCalls r = List.map_filter (toToolCall env) (mr_ToolCalls (choice_Message c))"
proof -
  from Chat_success_cases[OF assms] obtain b resp out c cs where
    st: "MarshalRequest env (buildRequest env messages tools model) = Inr b"
      "ClientDo env (httpRequest p b) = Inr resp"
      "DecodeResponse env (Body resp) = Inr out" "Choices out = c # cs"
    and r: "(r, None) = parseResponse env (choice_Message c)"
    by blast
  from r have "r = \<lparr>resp_Content = TrimSpace (mr_Content (choice_Message c)),
       HasToolCalls = (List.map_filter (toToolCall env) (mr_ToolCalls (choice_Message c)) \<noteq> []),
       resp_ToolCalls = List.map_filter (toToolCall env) (mr_ToolCalls (choice_Message c))\<rparr>"
    by (simp add: parseResponse_eq)
  then have "resp_Content r = TrimSpace (mr_Content (choice_Message c))"
    and "HasToolCalls r = list_ex (parseable env) (mr_ToolCalls (choice_Message c))"
    and "resp_ToolCalls r = List.map_filter (toToolCall env) (mr_ToolCalls (choice_Message c))"
    by (simp_all add: map_filter_toToolCall_Nil list_ex_iff)
  with st show ?thesis by blast
qed

lemma TrimSpace_demo: "TrimSpace '' done\<newline>'' = ''done''"
  by code_simp

theorem Chat_success_response_witness:
  \<open>Chat (demoEnv 200 (demoReply '' done\<newline>'' demoCalls)) demoProvider [] [] [] =
     (\<lparr>resp_Content = ''done'', HasToolCalls = True,
       resp_ToolCalls = [\<lparr>ID = ''call_1'', Name = ''echo'', Arguments = ''{"v":"42"}''\<rparr>,
                         \<lparr>ID = ''call_3'', Name = ''read'', Arguments = ''{}''\<rparr>]\<rparr>, None) \<and>
   TrimSpace '' done\<newline>'' = ''done'' \<and>
   list_ex (parseable (demoEnv 200 (demoReply '' done\<newline>'' demoCalls))) demoCalls \<and>
   List.map_filter (toToolCall (demoEnv 200 (demoReply '' done\<newline>'' demoCalls))) demoCalls =
     [\<lparr>ID = ''call_1'', Name = ''echo'', Arguments = ''{"v":"42"}''\<rparr>,
      \<lparr>ID = ''call_3'', Name = ''read'', Arguments = ''{}''\<rparr>]\<close>
proof -
  let ?env = "demoEnv 200 (demoReply '' done\<newline>'' demoCalls)"
  let ?r = \<open>\<lparr>resp_Content = ''done'', HasToolCalls = True,
       resp_ToolCalls = [\<lparr>ID = ''call_1'', Name = ''echo'', Arguments = ''{"v":"42"}''\<rparr>,
                         \<lparr>ID = ''call_3'', Name = ''read'', Arguments = ''{}''\<rparr>]\<rparr>\<close>
  have h: "Chat ?env demoProvider [] [] [] = (?r, None)"
    by (simp add: Chat_def demoEnv_def demoProvider_def demoReply_def demoCalls_def demoCall_def
        parseResponse_def demoUnmarshal_def TrimSpace_demo)
  from Chat_success_response[OF h] show ?thesis
    using h by (auto simp: demoEnv_def demoReply_def)
qed

text \<open>
  Claim C9. Every successful result of \<open>Chat\<close> has \<open>HasToolCalls\<close> set exactly when its
  list of tool calls is not empty. The tool calls returned are those of the message whose
  arguments parse (the others are skipped, without an error); when none parses, the
  result is the trimmed content with \<open>HasToolCalls = False\<close> and no tool call.
\<close>
theorem HasToolCalls_iff_ToolCalls_nonempty:
  assumes "Chat env p messages tools model = (r, None)"
  shows "HasToolCalls r = (resp_ToolCalls r \<noteq> []) \<and>
    (\<exists>b resp out c cs.
      MarshalRequest env (buildRequest env messages tools model) = Inr b \<and>
      ClientDo env (httpRequest p b) = Inr resp \<and>
      DecodeResponse env (Body resp) = Inr out \<and>
      Choices out = c # cs \<and>
      map ID (resp_ToolCalls r) =
        map tcj_ID (filter (parseable env) (mr_ToolCalls (choice_Message c))) \<and>
      (list_all (\<lambda>tc. \<not> parseable env tc) (mr_ToolCalls (choice_Message c)) \<longrightarrow>
         r = \<lparr>resp_Content = TrimSpace (mr_Content (choice_Message c)), HasToolCalls = False,
              resp_ToolCalls = []\<rparr>))"
proof -
  from Chat_success_cases[OF assms] obtain b resp out c cs where
    st: "MarshalRequest env (buildRequest env messages tools model) = Inr b"
      "ClientDo env (httpRequest p b) = Inr resp"
      "DecodeResponse env (Body resp) = Inr out" "Choices out = c # cs"
    and r: "(r, None) = parseResponse env (choice_Message c)"
    by blast
  let ?tcs = "mr_ToolCalls (choice_Message c)"
  from r have req: "r = \<lparr>resp_Content = TrimSpace (mr_Content (choice_Message c)),
       HasToolCalls = (List.map_filter (toToolCall env) ?tcs \<noteq> []),
       resp_ToolCalls = List.map_filter (toToolCall env) ?tcs\<rparr>"
    by (simp add: parseResponse_eq)
  have 1: "HasToolCalls r = (resp_ToolCalls r \<noteq> [])"
    by (subst (1 2) req) simp
  have 2: "map ID (resp_ToolCalls r) = map tcj_ID (filter (parseable env) ?tcs)"
    by (subst req) (simp add: map_filter_toToolCall_ids)
  have 3: "r = \<lparr>resp_Content = TrimSpace (mr_Content (choice_Message c)), HasToolCalls = False,
              resp_ToolCalls = []\<rparr>"
    if "list_all (\<lambda>tc. \<not> parseable env tc) ?tcs"
  proof -
    from that have "List.map_filter (toToolCall env) ?tcs = []"
      by (simp add: map_filter_toToolCall_Nil list_all_iff)
    with req show ?thesis by simp
  qed
  from st 1 2 3 show ?thesis by blast
qed

lemma TrimSpace_sorry: "TrimSpace ''sorry \<newline>'' = ''sorry''"
  by code_simp

theorem HasToolCalls_iff_ToolCalls_nonempty_witness:
  "Chat (demoEnv 200 (demoReply ''sorry \<newline>''
            [demoCall ''c1'' ''echo'' ''oops'', demoCall ''c2'' ''echo'' ''[1]'']))
      demoProvider [] [] [] =
     (\<lparr>resp_Content = ''sorry'', HasToolCalls = False, resp_ToolCalls = []\<rparr>, None) \<and>
   list_all
     (\<lambda>tc. \<not> parseable (demoEnv 200 (demoReply ''sorry \<newline>''
                 [demoCall ''c1'' ''echo'' ''oops'', demoCall ''c2'' ''echo'' ''[1]''])) tc)
     [demoCall ''c1'' ''echo'' ''oops'', demoCall ''c2'' ''echo'' ''[1]''] \<and>
   TrimSpace ''sorry \<newline>'' = ''sorry''"
proof -
  let ?calls = "[demoCall ''c1'' ''echo'' ''oops'', demoCall ''c2'' ''echo'' ''[1]'']"
  let ?env = "demoEnv 200 (demoReply ''sorry \<newline>'' ?calls)"
  let ?r = "\<lparr>resp_Content = ''sorry'', HasToolCalls = False, resp_ToolCalls = []\<rparr>
              :: string LLMResponse"
  have h: "Chat ?env demoProvider [] [] [] = (?r, None)"
    by (simp add: Chat_def demoEnv_def demoProvider_def demoReply_def demoCall_def
        parseResponse_def demoUnmarshal_def TrimSpace_sorry)
  have u: "list_all (\<lambda>tc. \<not> parseable ?env tc) ?calls"
    by (simp add: parseable_def demoEnv_def demoCall_def demoUnmarshal_def)
  from HasToolCalls_iff_ToolCalls_nonempty[OF h] u
  have "?r = \<lparr>resp_Content = TrimSpace ''sorry \<newline>'', HasToolCalls = False, resp_ToolCalls = []\<rparr>"
    by (auto simp: demoEnv_def demoReply_def)
  then have "TrimSpace ''sorry \<newline>'' = ''sorry''"
    by simp
  with h u show ?thesis
    by blast
qed

section \<open>Properties of the context builder\<close>

lemma loadBootstrap_acc:
  "loadBootstrap env ws names msgs = msgs @ concat (map (bootstrapTurn env ws) names)"
  by (induction names arbitrary: msgs) (auto simp: bootstrapTurn_def Let_def split: sum.splits)

lemma replayHistory_acc:
  "replayHistory hs msgs = msgs @ map userMessage (filter (\<lambda>h. h \<noteq> []) hs)"
  by (induction hs arbitrary: msgs) auto

lemma BuildMessages_eq:
  "BuildMessages env cb history currentMessage channel chatID memoryContext memories =
     systemTurns env cb currentMessage channel chatID memoryContext memories @
     map userMessage (filter (\<lambda>h. h \<noteq> []) history) @ [userMessage currentMessage]"
  by (simp add: BuildMessages_def systemTurns_def loadBootstrap_acc replayHistory_acc
      skillsTurn_def memoryContextTurn_def rankedMemoriesTurn_def Let_def)

lemma writeSkills_hd: "hd (writeSkills ss (c # sb)) = c"
proof -
  have "\<exists>rest. writeSkills ss sb = sb @ rest" for sb
    by (induction ss arbitrary: sb) (auto, metis append.assoc)
  then obtain rest where "writeSkills ss (c # sb) = (c # sb) @ rest"
    by blast
  then show ?thesis by simp
qed

lemma writeMemories_hd: "hd (writeMemories ms (c # sb)) = c"
proof -
  have "\<exists>rest. writeMemories ms sb = sb @ rest" for sb
    by (induction ms arbitrary: sb) (auto, metis append.assoc)
  then obtain rest where "writeMemories ms (c # sb) = (c # sb) @ rest"
    by blast
  then show ?thesis by simp
qed

lemma prefix_hd: "prefix (a # p) s \<Longrightarrow> hd s = a"
  by (auto simp: prefix_def)

lemma Role_systemMessage [simp]: "Role (systemMessage c) = ''system''"
  by (simp add: systemMessage_def)

lemma Role_userMessage [simp]: "Role (userMessage c) = ''user''"
  by (simp add: userMessage_def)

lemma Content_systemMessage [simp]: "Content (systemMessage c) = c"
  by (simp add: systemMessage_def)

lemma systemTurns_roles:
  "list_all (\<lambda>m. Role m = ''system'')
     (systemTurns env cb currentMessage channel chatID memoryContext memories)"
  by (auto simp: systemTurns_def list_all_iff bootstrapTurn_def skillsTurn_def
      memoryContextTurn_def rankedMemoriesTurn_def split: sum.splits if_splits)

lemma hasSystemTurn_simps [simp]:
  "hasSystemTurn pre (xs @ ys) = (hasSystemTurn pre xs \<or> hasSystemTurn pre ys)"
  "hasSystemTurn pre (m # ms) =
     ((Role m = ''system'' \<and> prefix pre (Content m)) \<or> hasSystemTurn pre ms)"
  "hasSystemTurn pre [] = False"
  by (simp_all add: hasSystemTurn_def)

lemma hasSystemTurn_user [simp]: "\<not> hasSystemTurn pre (map userMessage hs)"
  by (induction hs) auto

lemma skillsTurn_prefix:
  "hasSystemTurn (a # p) (skillsTurn ss) \<Longrightarrow> a = CHR ''A''"
  by (auto simp: skillsTurn_def writeSkills_hd split: if_splits dest!: prefix_hd)

lemma rankedTurn_prefix:
  "hasSystemTurn (a # p) (rankedMemoriesTurn ms) \<Longrightarrow> a = CHR ''R''"
  by (auto simp: rankedMemoriesTurn_def writeMemories_hd split: if_splits dest!: prefix_hd)

lemma memoryTurn_prefix:
  "hasSystemTurn (a # p) (memoryContextTurn mc) \<Longrightarrow> a = CHR ''M''"
  by (auto simp: memoryContextTurn_def split: if_splits dest!: prefix_hd)

lemma bootstrapTurn_prefix:
  "hasSystemTurn (''## '' @ name @ ''\<newline>\<newline>'') (bootstrapTurn env ws name') \<Longrightarrow>
     name \<in> set bootstrapFiles \<Longrightarrow> name' \<in> set bootstrapFiles \<Longrightarrow>
     name = name' \<and> \<not> isl (ReadFile env (Join env ws name'))"
  by (auto simp: bootstrapTurn_def bootstrapFiles_def split: sum.splits if_splits)

lemma bootstrapTurn_hd:
  "hasSystemTurn (a # p) (bootstrapTurn env ws name) \<Longrightarrow> a = CHR ''#''"
  by (auto simp: bootstrapTurn_def split: sum.splits if_splits dest!: prefix_hd)

lemma fixed_prefix:
  "prefix (a # p) systemPrompt \<Longrightarrow> a = CHR ''Y''"
  "prefix (a # p) (channelNotice env channel chatID) \<Longrightarrow> a = CHR ''Y''"
  "prefix (a # p) memoryInstruction \<Longrightarrow> a = CHR ''I''"
  by (auto simp: systemPrompt_def channelNotice_def memoryInstruction_def dest!: prefix_hd)

lemma BuildMessages_parts:
  "BuildMessages env cb history currentMessage channel chatID memoryContext memories =
     [systemMessage systemPrompt] @
     (bootstrapTurn env (workspace cb) ''SOUL.md'' @ bootstrapTurn env (workspace cb) ''AGENTS.md'' @
      bootstrapTurn env (workspace cb) ''USER.md'' @ bootstrapTurn env (workspace cb) ''TOOLS.md'') @
     [systemMessage (channelNotice env channel chatID), systemMessage memoryInstruction] @
     skillsTurn (fst (LoadAll env (skillsLoader cb))) @
     memoryContextTurn memoryContext @
     rankedMemoriesTurn (selectMemories cb currentMessage memories) @
     map userMessage (filter (\<lambda>h. h \<noteq> []) history) @ [userMessage currentMessage]"
  unfolding BuildMessages_eq systemTurns_def bootstrapFiles_def by simp

lemma hasSystemTurn_BuildMessages:
  assumes "hasSystemTurn (a # p)
     (BuildMessages env cb history currentMessage channel chatID memoryContext memories
        :: 'v Message list)"
  shows "a = CHR ''Y'' \<or> a = CHR ''I'' \<or>
     (\<exists>name\<in>set bootstrapFiles.
        hasSystemTurn (a # p) (bootstrapTurn env (workspace cb) name :: 'v Message list)) \<or>
     hasSystemTurn (a # p) (skillsTurn (fst (LoadAll env (skillsLoader cb))) :: 'v Message list) \<or>
     hasSystemTurn (a # p) (memoryContextTurn memoryContext :: 'v Message list) \<or>
     hasSystemTurn (a # p)
       (rankedMemoriesTurn (selectMemories cb currentMessage memories) :: 'v Message list)"
proof -
  have f: "\<not> prefix (a # p) systemPrompt" "\<not> prefix (a # p) (channelNotice env channel chatID)"
      "\<not> prefix (a # p) memoryInstruction"
    if "a \<noteq> CHR ''Y''" "a \<noteq> CHR ''I''"
    using that fixed_prefix by blast+
  show ?thesis
  proof (cases "a = CHR ''Y'' \<or> a = CHR ''I''")
    case True
    then show ?thesis by blast
  next
    case False
    with f have "\<not> prefix (a # p) systemPrompt" "\<not> prefix (a # p) (channelNotice env channel chatID)"
      "\<not> prefix (a # p) memoryInstruction"
      by blast+
    with assms show ?thesis
      unfolding BuildMessages_parts bootstrapFiles_def
      by simp
  qed
qed


lemma writeSkills_concat:
  "writeSkills ss sb =
     sb @ concat (map (\<lambda>skill. ''\<newline>## '' @ skill_Name skill @ ''\<newline>'' @
                                skill_Description skill @ ''\<newline>\<newline>'' @
                                skill_Content skill @ ''\<newline>'') ss)"
  by (induction ss arbitrary: sb) simp_all

lemma writeMemories_concat:
  "writeMemories ms sb =
     sb @ concat (map (\<lambda>m. ''- '' @ mem_Text m @ '' ('' @ mem_Kind m @ '')\<newline>'') ms)"
  by (induction ms arbitrary: sb) simp_all

lemma skillsTurn_present:
  "ss \<noteq> [] \<Longrightarrow> hasSystemTurn ''Available Skills:\<newline>'' (skillsTurn ss)"
  by (simp add: skillsTurn_def writeSkills_concat)

lemma memoryTurn_present:
  "mc \<noteq> [] \<Longrightarrow> hasSystemTurn ''Memory:\<newline>'' (memoryContextTurn mc)"
  by (simp add: memoryContextTurn_def)

lemma rankedTurn_present:
  "ms \<noteq> [] \<Longrightarrow> hasSystemTurn ''Relevant memories:\<newline>'' (rankedMemoriesTurn ms)"
  by (simp add: rankedMemoriesTurn_def writeMemories_concat)

lemma hasSystemTurn_parts:
  "hasSystemTurn pre
     (BuildMessages env cb history currentMessage channel chatID memoryContext memories
        :: 'v Message list) =
   (hasSystemTurn pre ([systemMessage systemPrompt] :: 'v Message list) \<or>
    hasSystemTurn pre (bootstrapTurn env (workspace cb) ''SOUL.md'' :: 'v Message list) \<or>
    hasSystemTurn pre (bootstrapTurn env (workspace cb) ''AGENTS.md'' :: 'v Message list) \<or>
    hasSystemTurn pre (bootstrapTurn env (workspace cb) ''USER.md'' :: 'v Message list) \<or>
    hasSystemTurn pre (bootstrapTurn env (workspace cb) ''TOOLS.md'' :: 'v Message list) \<or>
    hasSystemTurn pre ([systemMessage (channelNotice env channel chatID),
                        systemMessage memoryInstruction] :: 'v Message list) \<or>
    hasSystemTurn pre (skillsTurn (fst (LoadAll env (skillsLoader cb))) :: 'v Message list) \<or>
    hasSystemTurn pre (memoryContextTurn memoryContext :: 'v Message list) \<or>
    hasSystemTurn pre
      (rankedMemoriesTurn (selectMemories cb currentMessage memories) :: 'v Message list))"
  unfolding BuildMessages_parts
  by (simp only: hasSystemTurn_simps(1) hasSystemTurn_user hasSystemTurn_simps(2)[of pre "userMessage currentMessage" "[]"]
        hasSystemTurn_simps(3) Role_userMessage) (simp add: disj_ac)


text \<open>
  Claim C1, as the code has it. \<open>BuildMessages\<close> is a total function that returns turns
  and no error; its result is never empty and ends with the current message as a turn of
  role "user". A bootstrap file that cannot be read contributes no turn (no system turn
  starts with its \<open>## name\<close> heading). The skills turn is there exactly when the loader
  returns at least one skill: a load that returns no skills gives no skills turn, with or
  without an error, and the error itself is only logged, so skills returned together with
  an error are still shown. The \<open>Memory:\<close> turn is there exactly when the memory context
  is not empty, and the \<open>Relevant memories:\<close> turn exactly when the list of ranked
  memories is not empty.
\<close>
theorem BuildMessages_total_omits_missing:
  fixes msgs :: "'v Message list"
  assumes "msgs = BuildMessages env cb history currentMessage channel chatID memoryContext memories"
  shows "msgs \<noteq> [] \<and>
    last msgs = \<lparr>Role = ''user'', Content = currentMessage, ToolCallID = [], ToolCalls = []\<rparr> \<and>
    (\<forall>name err. name \<in> set bootstrapFiles \<and>
        ReadFile env (Join env (workspace cb) name) = Inl err \<longrightarrow>
        \<not> hasSystemTurn (''## '' @ name @ ''\<newline>\<newline>'') msgs) \<and>
    hasSystemTurn ''Available Skills:\<newline>'' msgs = (fst (LoadAll env (skillsLoader cb)) \<noteq> []) \<and>
    hasSystemTurn ''Memory:\<newline>'' msgs = (memoryContext \<noteq> []) \<and>
    hasSystemTurn ''Relevant memories:\<newline>'' msgs =
      (selectMemories cb currentMessage memories \<noteq> [])"
proof -
  have 1: "msgs \<noteq> [] \<and>
    last msgs = \<lparr>Role = ''user'', Content = currentMessage, ToolCallID = [], ToolCalls = []\<rparr>"
    unfolding assms BuildMessages_eq by (simp add: userMessage_def)
  have 3: "hasSystemTurn ''Available Skills:\<newline>'' msgs =
      (fst (LoadAll env (skillsLoader cb)) \<noteq> [])"
  proof (cases "fst (LoadAll env (skillsLoader cb)) = []")
    case True
    have "\<not> hasSystemTurn ''Available Skills:\<newline>'' msgs"
    proof
      assume "hasSystemTurn ''Available Skills:\<newline>'' msgs"
      from hasSystemTurn_BuildMessages[OF this[unfolded assms]]
      show False
        using bootstrapTurn_hd[where a = "CHR ''A''" and env = env and ws = "workspace cb"]
          memoryTurn_prefix[where a = "CHR ''A''" and mc = memoryContext]
          rankedTurn_prefix[where a = "CHR ''A''" and ms = "selectMemories cb currentMessage memories"]
        by (auto simp: True skillsTurn_def)
    qed
    with True show ?thesis by simp
  next
    case False
    from skillsTurn_present[OF False, where ?'a = 'v] have "hasSystemTurn ''Available Skills:\<newline>'' msgs"
      unfolding assms hasSystemTurn_parts by blast
    with False show ?thesis by simp
  qed
  have 2: "\<not> hasSystemTurn (''## '' @ name @ ''\<newline>\<newline>'') msgs"
    if n: "name \<in> set bootstrapFiles" and r: "ReadFile env (Join env (workspace cb) name) = Inl err"
    for name err
  proof
    assume "hasSystemTurn (''## '' @ name @ ''\<newline>\<newline>'') msgs"
    then have h: "hasSystemTurn (CHR ''#'' # ''# '' @ name @ ''\<newline>\<newline>'') msgs"
      by simp
    from hasSystemTurn_BuildMessages[OF h[unfolded assms]]
    consider
        (boot) name' where "name' \<in> set bootstrapFiles"
          "hasSystemTurn (CHR ''#'' # ''# '' @ name @ ''\<newline>\<newline>'')
             (bootstrapTurn env (workspace cb) name' :: 'v Message list)"
      | (skills) "hasSystemTurn (CHR ''#'' # ''# '' @ name @ ''\<newline>\<newline>'')
            (skillsTurn (fst (LoadAll env (skillsLoader cb))) :: 'v Message list)"
      | (mem) "hasSystemTurn (CHR ''#'' # ''# '' @ name @ ''\<newline>\<newline>'')
            (memoryContextTurn memoryContext :: 'v Message list)"
      | (ranked) "hasSystemTurn (CHR ''#'' # ''# '' @ name @ ''\<newline>\<newline>'')
            (rankedMemoriesTurn (selectMemories cb currentMessage memories) :: 'v Message list)"
      by auto
    then show False
    proof cases
      case boot
      from boot(2) have "hasSystemTurn (''## '' @ name @ ''\<newline>\<newline>'')
             (bootstrapTurn env (workspace cb) name' :: 'v Message list)"
        by simp
      from bootstrapTurn_prefix[OF this n boot(1)] r show False by simp
    next
      case skills
      from skillsTurn_prefix[OF this] show False by simp
    next
      case mem
      from memoryTurn_prefix[OF this] show False by simp
    next
      case ranked
      from rankedTurn_prefix[OF this] show False by simp
    qed
  qed
  have 4: "hasSystemTurn ''Memory:\<newline>'' msgs = (memoryContext \<noteq> [])"
  proof (cases "memoryContext = []")
    case True
    have "\<not> hasSystemTurn ''Memory:\<newline>'' msgs"
    proof
      assume "hasSystemTurn ''Memory:\<newline>'' msgs"
      from hasSystemTurn_BuildMessages[OF this[unfolded assms]]
      show False
        using bootstrapTurn_hd[where a = "CHR ''M''" and env = env and ws = "workspace cb"]
          skillsTurn_prefix[where a = "CHR ''M''" and ss = "fst (LoadAll env (skillsLoader cb))"]
          rankedTurn_prefix[where a = "CHR ''M''" and ms = "selectMemories cb currentMessage memories"]
        by (auto simp: True memoryContextTurn_def)
    qed
    with True show ?thesis by simp
  next
    case False
    from memoryTurn_present[OF False, where ?'a = 'v] have "hasSystemTurn ''Memory:\<newline>'' msgs"
      unfolding assms hasSystemTurn_parts by blast
    with False show ?thesis by simp
  qed
  have 5: "hasSystemTurn ''Relevant memories:\<newline>'' msgs =
      (selectMemories cb currentMessage memories \<noteq> [])"
  proof (cases "selectMemories cb currentMessage memories = []")
    case True
    have "\<not> hasSystemTurn ''Relevant memories:\<newline>'' msgs"
    proof
      assume "hasSystemTurn ''Relevant memories:\<newline>'' msgs"
      from hasSystemTurn_BuildMessages[OF this[unfolded assms]]
      show False
        using bootstrapTurn_hd[where a = "CHR ''R''" and env = env and ws = "workspace cb"]
          skillsTurn_prefix[where a = "CHR ''R''" and ss = "fst (LoadAll env (skillsLoader cb))"]
          memoryTurn_prefix[where a = "CHR ''R''" and mc = memoryContext]
        by (auto simp: True rankedMemoriesTurn_def)
    qed
    with True show ?thesis by simp
  next
    case False
    from rankedTurn_present[OF False, where ?'a = 'v]
    have "hasSystemTurn ''Relevant memories:\<newline>'' msgs"
      unfolding assms hasSystemTurn_parts by blast
    with False show ?thesis by simp
  qed
  from 1 2 3 4 5 show ?thesis by blast
qed


lemma TrimSpace_brief: "TrimSpace '' Be brief.\<newline>'' = ''Be brief.''"
  by code_simp

lemma demo_bootstrap:
  "bootstrapTurn demoContextEnv ''ws'' ''SOUL.md'' = []"
  "bootstrapTurn demoContextEnv ''ws'' ''AGENTS.md'' = [systemMessage ''## AGENTS.md\<newline>\<newline>Be brief.'']"
  "bootstrapTurn demoContextEnv ''ws'' ''USER.md'' = []"
  "bootstrapTurn demoContextEnv ''ws'' ''TOOLS.md'' = []"
  by (simp_all add: bootstrapTurn_def demoContextEnv_def TrimSpace_brief)

lemma demo_workspace [simp]:
  "workspace demoBuilder = ''ws''" "skillsLoader demoBuilder = ''ws''"
  "workspace demoFullBuilder = ''ws''" "skillsLoader demoFullBuilder = ''ws''"
  by (simp_all add: demoBuilder_def demoFullBuilder_def)


theorem BuildMessages_total_omits_missing_witness:
  "ReadFile demoContextEnv (Join demoContextEnv (workspace demoBuilder) ''SOUL.md'') =
     Inl ''no such file or directory'' \<and>
   \<not> hasSystemTurn ''## SOUL.md\<newline>\<newline>''
     (BuildMessages demoContextEnv demoBuilder [''user: hi''] ''hello'' ''telegram'' ''42'' [] []
        :: unit Message list) \<and>
   LoadAll demoContextEnv (skillsLoader demoBuilder) = ([], Some ''permission denied'') \<and>
   \<not> hasSystemTurn ''Available Skills:\<newline>''
     (BuildMessages demoContextEnv demoBuilder [''user: hi''] ''hello'' ''telegram'' ''42'' [] []
        :: unit Message list) \<and>
   \<not> hasSystemTurn ''Memory:\<newline>''
     (BuildMessages demoContextEnv demoBuilder [''user: hi''] ''hello'' ''telegram'' ''42'' [] []
        :: unit Message list) \<and>
   selectMemories demoBuilder ''hello'' [] = [] \<and>
   \<not> hasSystemTurn ''Relevant memories:\<newline>''
     (BuildMessages demoContextEnv demoBuilder [''user: hi''] ''hello'' ''telegram'' ''42'' [] []
        :: unit Message list) \<and>
   last (BuildMessages demoContextEnv demoBuilder [''user: hi''] ''hello'' ''telegram'' ''42'' [] []
        :: unit Message list) =
     \<lparr>Role = ''user'', Content = ''hello'', ToolCallID = [], ToolCalls = []\<rparr> \<and>
   hasSystemTurn ''Memory:\<newline>''
     (BuildMessages demoFullEnv demoFullBuilder [] ''hello'' ''telegram'' ''42'' ''notes'' demoMemories
        :: unit Message list) \<and>
   hasSystemTurn ''Available Skills:\<newline>''
     (BuildMessages demoFullEnv demoFullBuilder [] ''hello'' ''telegram'' ''42'' ''notes'' demoMemories
        :: unit Message list) \<and>
   hasSystemTurn ''Relevant memories:\<newline>''
     (BuildMessages demoFullEnv demoFullBuilder [] ''hello'' ''telegram'' ''42'' ''notes'' demoMemories
        :: unit Message list)"
proof -
  let ?msgs = "BuildMessages demoContextEnv demoBuilder [''user: hi''] ''hello'' ''telegram'' ''42'' [] []
        :: unit Message list"
  note t = BuildMessages_total_omits_missing[OF refl, of demoContextEnv demoBuilder "[''user: hi'']"
      "''hello''" "''telegram''" "''42''" "[]" "[]", where ?'v = unit]
  note t2 = BuildMessages_total_omits_missing[OF refl, of demoFullEnv demoFullBuilder "[]"
      "''hello''" "''telegram''" "''42''" "''notes''" demoMemories, where ?'v = unit]
  have r: "ReadFile demoContextEnv (Join demoContextEnv (workspace demoBuilder) ''SOUL.md'') =
     Inl ''no such file or directory''"
    by (simp add: demoContextEnv_def)
  have l: "LoadAll demoContextEnv (skillsLoader demoBuilder) = ([], Some ''permission denied'')"
    by (simp add: demoContextEnv_def)
  have s: "selectMemories demoBuilder ''hello'' [] = []"
    by (simp add: selectMemories_def demoBuilder_def)
  have n: "''SOUL.md'' \<in> set bootstrapFiles"
    by (simp add: bootstrapFiles_def)
  from t n r have 1: "\<not> hasSystemTurn (''## '' @ ''SOUL.md'' @ ''\<newline>\<newline>'') ?msgs"
    by blast
  have f: "fst (LoadAll demoFullEnv (skillsLoader demoFullBuilder)) \<noteq> []"
    "selectMemories demoFullBuilder ''hello'' demoMemories \<noteq> []" "''notes'' \<noteq> ([] :: string)"
    by (simp_all add: demoFullEnv_def demoSkill_def selectMemories_def demoFullBuilder_def
        demoMemories_def)
  from t l s 1 r have a: "\<not> hasSystemTurn ''## SOUL.md\<newline>\<newline>'' ?msgs"
    "\<not> hasSystemTurn ''Available Skills:\<newline>'' ?msgs" "\<not> hasSystemTurn ''Memory:\<newline>'' ?msgs"
    "\<not> hasSystemTurn ''Relevant memories:\<newline>'' ?msgs"
    "last ?msgs = \<lparr>Role = ''user'', Content = ''hello'', ToolCallID = [], ToolCalls = []\<rparr>"
    by simp_all
  from t2 f a r l s show ?thesis
    by blast
qed


lemma demoErr_fields:
  "ReadFile demoErrSkillsEnv = ReadFile demoContextEnv" "Join demoErrSkillsEnv = Join demoContextEnv"
  "LoadAll demoErrSkillsEnv ''ws'' = ([demoSkill], Some ''permission denied'')"
  by (simp_all add: demoErrSkillsEnv_def)

theorem skills_error_keeps_turn_counterexample:
  "LoadAll demoErrSkillsEnv (skillsLoader demoBuilder) = ([demoSkill], Some ''permission denied'') \<and>
   hasSystemTurn ''Available Skills:\<newline>''
     (BuildMessages demoErrSkillsEnv demoBuilder [] ''hello'' ''telegram'' ''42'' [] []
        :: unit Message list) \<and>
   (BuildMessages demoErrSkillsEnv demoBuilder [] ''hello'' ''telegram'' ''42'' [] []
        :: unit Message list) ! 4 =
     \<lparr>Role = ''system'',
      Content = ''Available Skills:\<newline>\<newline>## weather\<newline>Forecasts\<newline>\<newline>Use wttr.in\<newline>'',
      ToolCallID = [], ToolCalls = []\<rparr>"
proof -
  have b: "bootstrapTurn demoErrSkillsEnv ''ws'' name = bootstrapTurn demoContextEnv ''ws'' name"
    for name
    by (simp add: bootstrapTurn_def demoErr_fields)
  show ?thesis
    by (simp add: BuildMessages_parts b demo_bootstrap demoErr_fields skillsTurn_def
        memoryContextTurn_def rankedMemoriesTurn_def selectMemories_def demoBuilder_def
        demoSkill_def systemMessage_def)
qed

lemma turn_contents:
  "(bootstrapTurn env ws name :: 'v Message list) =
     map (\<lambda>c. \<lparr>Role = ''system'', Content = c, ToolCallID = [], ToolCalls = []\<rparr>)
       (bootstrapContent env ws name)"
  "(skillsTurn ss :: 'v Message list) =
     map (\<lambda>c. \<lparr>Role = ''system'', Content = c, ToolCallID = [], ToolCalls = []\<rparr>) (skillsContent ss)"
  "(memoryContextTurn mc :: 'v Message list) =
     map (\<lambda>c. \<lparr>Role = ''system'', Content = c, ToolCallID = [], ToolCalls = []\<rparr>)
       (memoryContextContent mc)"
  "(rankedMemoriesTurn ms :: 'v Message list) =
     map (\<lambda>c. \<lparr>Role = ''system'', Content = c, ToolCallID = [], ToolCalls = []\<rparr>)
       (rankedMemoriesContent ms)"
  by (simp_all add: bootstrapTurn_def bootstrapContent_def skillsTurn_def skillsContent_def
      memoryContextTurn_def memoryContextContent_def rankedMemoriesTurn_def
      rankedMemoriesContent_def systemMessage_def writeSkills_concat writeMemories_concat
      split: sum.splits)


text \<open>
  Claim C4, as the code has it. The result of \<open>BuildMessages\<close> is, in this order: the
  system turns (the static system prompt, the bootstrap files SOUL.md, AGENTS.md, USER.md,
  TOOLS.md, the channel notice, the memory-tool instruction, the skills catalog, the memory
  context, the ranked memories, each optional one present or absent), every one of role
  "system"; then one turn of role "user" for each non-empty history entry, in the original
  order, with the entry as its content (an empty entry is skipped); then the current
  inbound text as the last turn, of role "user".
\<close>
theorem BuildMessages_order:
  "(BuildMessages env cb history currentMessage channel chatID memoryContext memories
      :: 'v Message list) =
     map (\<lambda>c. \<lparr>Role = ''system'', Content = c, ToolCallID = [], ToolCalls = []\<rparr>)
       ([systemPrompt] @
        bootstrapContent env (workspace cb) ''SOUL.md'' @
        bootstrapContent env (workspace cb) ''AGENTS.md'' @
        bootstrapContent env (workspace cb) ''USER.md'' @
        bootstrapContent env (workspace cb) ''TOOLS.md'' @
        [channelNotice env channel chatID] @
        [memoryInstruction] @
        skillsContent (fst (LoadAll env (skillsLoader cb))) @
        memoryContextContent memoryContext @
        rankedMemoriesContent (selectMemories cb currentMessage memories)) @
     map (\<lambda>h. \<lparr>Role = ''user'', Content = h, ToolCallID = [], ToolCalls = []\<rparr>)
       (filter (\<lambda>h. h \<noteq> []) history) @
     [\<lparr>Role = ''user'', Content = currentMessage, ToolCallID = [], ToolCalls = []\<rparr>]"
proof -
  have u: "(userMessage :: string \<Rightarrow> 'v Message) =
      (\<lambda>h. \<lparr>Role = ''user'', Content = h, ToolCallID = [], ToolCalls = []\<rparr>)"
    by (simp add: userMessage_def fun_eq_iff)
  show ?thesis
    unfolding BuildMessages_parts turn_contents u
    by (simp add: systemMessage_def)
qed

lemma TrimSpace_full: "TrimSpace ''Be dry.\<newline>'' = ''Be dry.''" "TrimSpace ''  \<newline>'' = []"
  by code_simp+

theorem BuildMessages_order_witness:
  \<open>(BuildMessages demoFullEnv demoFullBuilder [''user: a'', ''assistant: b''] ''hello''
      ''telegram'' ''42'' ''notes'' demoMemories :: unit Message list) =
    [\<lparr>Role = ''system'',
      Content = ''You are SMCHouseBot, a helpful assistant. Always reply in Brazilian Portuguese unless the user explicitly asks for another language. Use a dry, sarcastic tone inspired by Dr. House, while remaining helpful, precise, and technically competent.'',
      ToolCallID = [], ToolCalls = []\<rparr>,
     \<lparr>Role = ''system'', Content = ''## SOUL.md\<newline>\<newline>Be dry.'', ToolCallID = [], ToolCalls = []\<rparr>,
     \<lparr>Role = ''system'',
      Content = ''You are operating on channel="telegram" chatID="42". You have full access to all registered tools regardless of the channel. Always use your tools when the user asks you to perform actions (file operations, shell commands, web fetches, etc.).'',
      ToolCallID = [], ToolCalls = []\<rparr>,
     \<lparr>Role = ''system'',
      Content = ''If you decide something should be remembered, call the tool 'write_memory' with JSON arguments: {"target": "today"|"long", "content": "...", "append": true|false}. Use a tool call rather than plain chat text when writing memory.'',
      ToolCallID = [], ToolCalls = []\<rparr>,
     \<lparr>Role = ''system'',
      Content = ''Available Skills:\<newline>\<newline>## weather\<newline>Forecasts\<newline>\<newline>Use wttr.in\<newline>'',
      ToolCallID = [], ToolCalls = []\<rparr>,
     \<lparr>Role = ''system'', Content = ''Memory:\<newline>notes'', ToolCallID = [], ToolCalls = []\<rparr>,
     \<lparr>Role = ''system'', Content = ''Relevant memories:\<newline>- likes tea (long)\<newline>'',
      ToolCallID = [], ToolCalls = []\<rparr>,
     \<lparr>Role = ''user'', Content = ''user: a'', ToolCallID = [], ToolCalls = []\<rparr>,
     \<lparr>Role = ''user'', Content = ''assistant: b'', ToolCallID = [], ToolCalls = []\<rparr>,
     \<lparr>Role = ''user'', Content = ''hello'', ToolCallID = [], ToolCalls = []\<rparr>]\<close>
proof -
  have b: "bootstrapContent demoFullEnv ''ws'' ''SOUL.md'' = [''## SOUL.md\<newline>\<newline>Be dry.'']"
    "bootstrapContent demoFullEnv ''ws'' ''AGENTS.md'' = []"
    "bootstrapContent demoFullEnv ''ws'' ''USER.md'' = []"
    "bootstrapContent demoFullEnv ''ws'' ''TOOLS.md'' = []"
    by (simp_all add: bootstrapContent_def demoFullEnv_def TrimSpace_full)
  have l: "fst (LoadAll demoFullEnv ''ws'') = [demoSkill]"
    and q: "Quote demoFullEnv = (\<lambda>s. [CHR 0x22] @ s @ [CHR 0x22])"
    by (simp_all add: demoFullEnv_def)
  have s: "selectMemories demoFullBuilder ''hello'' demoMemories =
      [\<lparr>mem_Kind = ''long'', mem_Text = ''likes tea''\<rparr>]"
    by (simp add: selectMemories_def demoFullBuilder_def demoMemories_def)
  show ?thesis
    unfolding BuildMessages_order[of demoFullEnv demoFullBuilder, where ?'v = unit]
    by (simp add: b l q s skillsContent_def memoryContextContent_def rankedMemoriesContent_def
        demoSkill_def systemPrompt_def channelNotice_def memoryInstruction_def)
qed

theorem empty_history_entry_counterexample:
  "length (BuildMessages demoContextEnv demoBuilder [''user: a'', [], ''user: b''] ''hello''
      ''telegram'' ''42'' [] [] :: unit Message list) = 7 \<and>
   drop 4 (BuildMessages demoContextEnv demoBuilder [''user: a'', [], ''user: b''] ''hello''
      ''telegram'' ''42'' [] [] :: unit Message list) =
     [\<lparr>Role = ''user'', Content = ''user: a'', ToolCallID = [], ToolCalls = []\<rparr>,
      \<lparr>Role = ''user'', Content = ''user: b'', ToolCallID = [], ToolCalls = []\<rparr>,
      \<lparr>Role = ''user'', Content = ''hello'', ToolCallID = [], ToolCalls = []\<rparr>]"
proof -
  have "fst (LoadAll demoContextEnv ''ws'') = []"
    by (simp add: demoContextEnv_def)
  then show ?thesis
    by (simp add: BuildMessages_parts demo_bootstrap skillsTurn_def memoryContextTurn_def
        rankedMemoriesTurn_def selectMemories_def demoBuilder_def userMessage_def)
qed

text \<open>
  Claim C5, as the code has it. The turns of the result that are not system turns are the
  non-empty history entries, in order, each as a turn of role "user" whose content is the
  whole recorded string (its "role: " prefix included), followed by the current message.
  The role recorded in a history entry is never used as the role of its turn: an entry
  recorded as "assistant: hi" is emitted with role "user".
\<close>
theorem history_replayed_as_user_turns:
  "filter (\<lambda>m. Role m \<noteq> ''system'')
     (BuildMessages env cb history currentMessage channel chatID memoryContext memories
        :: 'v Message list) =
   map userMessage (filter (\<lambda>h. h \<noteq> []) history) @ [userMessage currentMessage]"
proof -
  have "filter (\<lambda>m. Role m \<noteq> ''system'')
     (systemTurns env cb currentMessage channel chatID memoryContext memories :: 'v Message list) = []"
    using systemTurns_roles[of env cb currentMessage channel chatID memoryContext memories, where ?'a = 'v]
    by (simp add: list_all_iff filter_empty_conv)
  moreover have "filter (\<lambda>m. Role m \<noteq> ''system'') (map userMessage hs :: 'v Message list) =
      map userMessage hs" for hs
    by (induction hs) simp_all
  ultimately show ?thesis
    by (simp add: BuildMessages_eq)
qed

theorem history_role_counterexample:
  "map Role (BuildMessages demoContextEnv demoBuilder [''assistant: hi''] ''hello'' ''telegram'' ''42'' [] []
      :: unit Message list) =
     [''system'', ''system'', ''system'', ''system'', ''user'', ''user''] \<and>
   (BuildMessages demoContextEnv demoBuilder [''assistant: hi''] ''hello'' ''telegram'' ''42'' [] []
      :: unit Message list) ! 4 = \<lparr>Role = ''user'', Content = ''assistant: hi'', ToolCallID = [], ToolCalls = []\<rparr>"
proof -
  have "fst (LoadAll demoContextEnv ''ws'') = []"
    by (simp add: demoContextEnv_def)
  then show ?thesis
    by (simp add: BuildMessages_parts demo_bootstrap demoBuilder_def
      skillsTurn_def memoryContextTurn_def rankedMemoriesTurn_def selectMemories_def userMessage_def)
qed

section \<open>Properties of the Telegram adapter\<close>

lemma allowedSet_eq: "allowedSet allowFrom = set allowFrom"
proof -
  have "fold (\<lambda>id allowed. insert id allowed) xs A = set xs \<union> A" for xs and A :: "string set"
    by (induction xs arbitrary: A) auto
  then show ?thesis by (simp add: allowedSet_def)
qed

lemma sent_handleUpdate:
  "sent (handleUpdate allowed upd st) =
     sent st @ (case delivered allowed upd of None \<Rightarrow> [] | Some d \<Rightarrow> [d])"
  by (auto simp: handleUpdate_def delivered_def inboundOf_def Let_def split: option.splits)

lemma sent_processUpdates:
  "sent (processUpdates allowed us st) = sent st @ List.map_filter (delivered allowed) us"
  by (induction us arbitrary: st) (auto simp: sent_handleUpdate split: option.splits)

lemma hub_In_processUpdates:
  "hub_In (processUpdates allowed us st) =
     hub_In st @ map snd (List.map_filter (delivered allowed) us)"
  by (simp add: hub_In_def sent_processUpdates)

lemma map_filter_append:
  "List.map_filter f (xs @ ys) = List.map_filter f xs @ List.map_filter f ys"
  by (simp add: List.map_filter_def)

lemma delivered_open:
  "map snd (List.map_filter (delivered {}) us) = map inboundOf (List.map_filter upd_Message us)"
  by (induction us) (auto simp: delivered_def split: option.splits)

lemma delivered_allowed:
  assumes "allowed \<noteq> {}"
  shows "list_all (\<lambda>i. SenderID i \<in> allowed) (map snd (List.map_filter (delivered allowed) us))"
  using assms
  by (induction us) (auto simp: delivered_def inboundOf_def split: option.splits if_splits)

text \<open>
  Claim C7. With a non-empty \<open>allowFrom\<close>, an update whose sender is not listed puts nothing
  on \<open>hub.In\<close>: the loop body leaves \<open>hub.In\<close> as it was and logs the drop, and a batch
  publishes what it would publish without that update; every message a batch publishes
  then has a listed sender. With an empty \<open>allowFrom\<close>, a batch publishes one message for
  each update that has a message, in order, with channel "telegram", the sender id, the
  chat id and the text (\<open>inboundOf\<close>).
\<close>
theorem allowlist_enforced_before_publish:
  "(allowFrom \<noteq> [] \<and> upd_Message upd = Some m \<and> senderID m \<notin> set allowFrom \<longrightarrow>
      hub_In (handleUpdate (allowedSet allowFrom) upd st) = hub_In st \<and>
      logs (handleUpdate (allowedSet allowFrom) upd st) =
        logs st @ [''telegram: dropping message from unauthorized user '' @ senderID m] \<and>
      hub_In (processUpdates (allowedSet allowFrom) (pre @ upd # post) st) =
        hub_In (processUpdates (allowedSet allowFrom) (pre @ post) st)) \<and>
   (allowFrom \<noteq> [] \<longrightarrow>
      list_all (\<lambda>i. SenderID i \<in> set allowFrom)
        (drop (length (hub_In st)) (hub_In (processUpdates (allowedSet allowFrom) us st)))) \<and>
   hub_In (processUpdates (allowedSet []) us st) =
     hub_In st @ map inboundOf (List.map_filter upd_Message us)"
proof -
  have 1: "hub_In (handleUpdate (allowedSet allowFrom) upd st) = hub_In st \<and>
      logs (handleUpdate (allowedSet allowFrom) upd st) =
        logs st @ [''telegram: dropping message from unauthorized user '' @ senderID m] \<and>
      hub_In (processUpdates (allowedSet allowFrom) (pre @ upd # post) st) =
        hub_In (processUpdates (allowedSet allowFrom) (pre @ post) st)"
    if "allowFrom \<noteq> []" "upd_Message upd = Some m" "senderID m \<notin> set allowFrom"
  proof -
    from that have d: "delivered (set allowFrom) upd = None"
      by (simp add: delivered_def)
    from that have "logs (handleUpdate (set allowFrom) upd st) =
        logs st @ [''telegram: dropping message from unauthorized user '' @ senderID m]"
      by (simp add: handleUpdate_def Let_def)
    with d show ?thesis
      by (simp add: allowedSet_eq hub_In_def sent_processUpdates sent_handleUpdate map_filter_append)
  qed
  have 2: "list_all (\<lambda>i. SenderID i \<in> set allowFrom)
        (drop (length (hub_In st)) (hub_In (processUpdates (allowedSet allowFrom) us st)))"
    if "allowFrom \<noteq> []"
    using that delivered_allowed[of "set allowFrom" us]
    by (simp add: allowedSet_eq hub_In_processUpdates)
  have 3: "hub_In (processUpdates (allowedSet []) us st) =
     hub_In st @ map inboundOf (List.map_filter upd_Message us)"
    by (simp add: allowedSet_eq hub_In_processUpdates delivered_open)
  from 1 2 3 show ?thesis by blast
qed

lemma FormatInt_demo: "FormatInt 7 = ''7''" "FormatInt 123 = ''123''" "FormatInt 456 = ''456''"
  by code_simp+

theorem allowlist_enforced_before_publish_witness:
  "[''123''] \<noteq> [] \<and> senderID \<lparr>MessageID = 1, From = Some 7, Chat_ID = 456, msg_Text = ''again''\<rparr> \<notin> set [''123''] \<and>
   hub_In (handleUpdate (allowedSet [''123'']) (demoUpdate 2 7 ''again'') pollStart) = hub_In pollStart \<and>
   logs (handleUpdate (allowedSet [''123'']) (demoUpdate 2 7 ''again'') pollStart) =
     [''telegram: dropping message from unauthorized user 7''] \<and>
   hub_In (processUpdates (allowedSet [''123''])
             ([demoUpdate 1 123 ''hello''] @ demoUpdate 2 7 ''again'' # [demoUpdate 6 123 ''bye'']) pollStart) =
     hub_In (processUpdates (allowedSet [''123''])
             ([demoUpdate 1 123 ''hello''] @ [demoUpdate 6 123 ''bye'']) pollStart) \<and>
   hub_In (processUpdates (allowedSet []) [demoUpdate 1 123 ''hello'', \<lparr>UpdateID = 5, upd_Message = None\<rparr>,
             demoUpdate 2 7 ''again''] pollStart) =
     [\<lparr>Channel = ''telegram'', SenderID = ''123'', ChatID = ''456'', in_Content = ''hello''\<rparr>,
      \<lparr>Channel = ''telegram'', SenderID = ''7'', ChatID = ''456'', in_Content = ''again''\<rparr>]"
proof -
  let ?m = "\<lparr>MessageID = 1, From = Some 7, Chat_ID = 456, msg_Text = ''again''\<rparr>"
  have s: "senderID ?m = ''7''"
    by (simp add: senderID_def FormatInt_demo)
  have u: "upd_Message (demoUpdate 2 7 ''again'') = Some ?m"
    by (simp add: demoUpdate_def)
  note t1 = allowlist_enforced_before_publish[of "[''123'']" "demoUpdate 2 7 ''again''" ?m pollStart
      "[demoUpdate 1 123 ''hello'']" "[demoUpdate 6 123 ''bye'']" "[]"]
  note t2 = allowlist_enforced_before_publish[of "[]" "demoUpdate 2 7 ''again''" ?m pollStart
      "[]" "[]" "[demoUpdate 1 123 ''hello'', \<lparr>UpdateID = 5, upd_Message = None\<rparr>, demoUpdate 2 7 ''again'']"]
  have e: "hub_In pollStart = []"
    by (simp add: hub_In_def pollStart_def)
  from t1 s u have a: "hub_In (handleUpdate (allowedSet [''123'']) (demoUpdate 2 7 ''again'') pollStart) = hub_In pollStart"
    "logs (handleUpdate (allowedSet [''123'']) (demoUpdate 2 7 ''again'') pollStart) =
       logs pollStart @ [''telegram: dropping message from unauthorized user '' @ senderID ?m]"
    "hub_In (processUpdates (allowedSet [''123''])
             ([demoUpdate 1 123 ''hello''] @ demoUpdate 2 7 ''again'' # [demoUpdate 6 123 ''bye'']) pollStart) =
     hub_In (processUpdates (allowedSet [''123''])
             ([demoUpdate 1 123 ''hello''] @ [demoUpdate 6 123 ''bye'']) pollStart)"
    by simp_all
  from t2 have b: "hub_In (processUpdates (allowedSet []) [demoUpdate 1 123 ''hello'', \<lparr>UpdateID = 5, upd_Message = None\<rparr>,
             demoUpdate 2 7 ''again''] pollStart) =
     hub_In pollStart @ map inboundOf (List.map_filter upd_Message
        [demoUpdate 1 123 ''hello'', \<lparr>UpdateID = 5, upd_Message = None\<rparr>, demoUpdate 2 7 ''again''])"
    by blast
  have c1: "[''123''] \<noteq> ([] :: string list)" "senderID ?m \<notin> set [''123'']"
    by (simp_all add: s)
  from a(2) have c2: "logs (handleUpdate (allowedSet [''123'']) (demoUpdate 2 7 ''again'') pollStart) =
     [''telegram: dropping message from unauthorized user 7'']"
    by (simp add: s pollStart_def)
  from b have c3: "hub_In (processUpdates (allowedSet []) [demoUpdate 1 123 ''hello'', \<lparr>UpdateID = 5, upd_Message = None\<rparr>,
             demoUpdate 2 7 ''again''] pollStart) =
     [\<lparr>Channel = ''telegram'', SenderID = ''123'', ChatID = ''456'', in_Content = ''hello''\<rparr>,
      \<lparr>Channel = ''telegram'', SenderID = ''7'', ChatID = ''456'', in_Content = ''again''\<rparr>]"
    by (simp add: e demoUpdate_def inboundOf_def senderID_def FormatInt_demo)
  from c1 a(1) c2 a(3) c3 show ?thesis
    by blast
qed

lemma exchanges_handleUpdate [simp]: "exchanges (handleUpdate allowed upd st) = exchanges st"
  by (auto simp: handleUpdate_def Let_def split: option.splits)

lemma exchanges_processUpdates [simp]: "exchanges (processUpdates allowed us st) = exchanges st"
  by (induction us arbitrary: st) auto

lemma exchanges_inboundPolling:
  "\<exists>more. exchanges (inboundPolling allowed rounds st) = exchanges st @ more"
  by (induction allowed rounds st rule: inboundPolling.induct) auto

lemma sint_maxInt64: "sint maxInt64 = 9223372036854775807"
  by (simp add: maxInt64_def)

lemma sint_succ:
  assumes "u \<noteq> maxInt64"
  shows "sint (u + 1) = sint u + 1"
proof -
  have "sint u \<noteq> sint maxInt64"
    using assms signed_word_eqI[of u maxInt64] by blast
  moreover have "sint u < 2 ^ 63" "- (2 ^ 63) \<le> sint u"
    using sint_lt[of u] sint_ge[of u] by simp_all
  ultimately have b: "sint u + 1 < 2 ^ 63" "- (2 ^ 63) \<le> sint u + 1"
    by (simp_all add: sint_maxInt64)
  have "sint (u + 1) = signed_take_bit 63 (sint u + 1)"
    by (simp add: sint_word_ariths)
  also have "\<dots> = sint u + 1"
    using b by (simp add: signed_take_bit_int_eq_self)
  finally show ?thesis .
qed

lemma offset_handleUpdate:
  assumes "UpdateID upd \<noteq> maxInt64"
  shows "sint (offset st) \<le> sint (offset (handleUpdate allowed upd st))"
    and "sint (UpdateID upd) < sint (offset (handleUpdate allowed upd st))"
  using sint_succ[OF assms]
  by (auto simp: handleUpdate_def Let_def split: option.splits)

lemma offset_processUpdates:
  assumes "list_all (\<lambda>u. UpdateID u \<noteq> maxInt64) us"
  shows "sint (offset st) \<le> sint (offset (processUpdates allowed us st)) \<and>
         list_all (\<lambda>u. sint (UpdateID u) < sint (offset (processUpdates allowed us st))) us"
  using assms
proof (induction us arbitrary: st)
  case Nil
  then show ?case by simp
next
  case (Cons u us)
  let ?st1 = "handleUpdate allowed u st"
  from Cons.prems have u: "UpdateID u \<noteq> maxInt64"
    and us: "list_all (\<lambda>u. UpdateID u \<noteq> maxInt64) us"
    by simp_all
  from Cons.IH[OF us, where st = ?st1]
    offset_handleUpdate[OF u, where st = st and allowed = allowed]
  show ?case by auto
qed

lemma delivered_ids:
  "map fst (List.map_filter (delivered allowed) us) =
     map UpdateID (filter (\<lambda>u. delivered allowed u \<noteq> None) us)"
  by (induction us) (auto simp: delivered_def split: option.splits)

lemma pollInv_failed:
  assumes "pollInv st"
  shows "pollInv (st\<lparr>logs := l, exchanges := exchanges st @ [(offset st, [])]\<rparr>)"
  using assms by (auto simp: pollInv_def honoursOffset_def sorted_append)

lemma pollInv_batch:
  assumes inv: "pollInv st" and ids: "list_all (\<lambda>u. UpdateID u \<noteq> maxInt64) us"
  shows "pollInv (processUpdates allowed us (st\<lparr>exchanges := exchanges st @ [(offset st, us)]\<rparr>))"
proof -
  let ?st2 = "st\<lparr>exchanges := exchanges st @ [(offset st, us)]\<rparr>"
  let ?st3 = "processUpdates allowed us ?st2"
  from offset_processUpdates[OF ids, where st = ?st2 and allowed = allowed]
  have le: "sint (offset st) \<le> sint (offset ?st3)"
    and new: "list_all (\<lambda>u. sint (UpdateID u) < sint (offset ?st3)) us"
    by simp_all
  have ex: "exchanges ?st3 = exchanges st @ [(offset st, us)]"
    by simp
  have snt: "sent ?st3 = sent st @ List.map_filter (delivered allowed) us"
    by (simp add: sent_processUpdates)
  have 1: "sorted (map sint (map fst (exchanges ?st3) @ [offset ?st3]))"
    using inv le unfolding ex pollInv_def by (auto simp: sorted_append)
  have 2: "list_all (\<lambda>(off, us). list_all (\<lambda>u. sint (UpdateID u) < sint (offset ?st3)) us)
             (exchanges ?st3)"
    using inv le new unfolding ex pollInv_def by (fastforce simp: list_all_iff)
  have 3: "distinct (map fst (sent ?st3)) \<and>
           list_all (\<lambda>(uid, m). sint uid < sint (offset ?st3)) (sent ?st3)"
    if h: "honoursOffset (exchanges ?st3)"
  proof -
    from h have hold: "honoursOffset (exchanges st)"
      and ge: "list_all (\<lambda>u. sint (offset st) \<le> sint (UpdateID u)) us"
      and dist: "distinct (map UpdateID us)"
      unfolding ex honoursOffset_def by simp_all
    from inv hold have d0: "distinct (map fst (sent st))"
      and b0: "list_all (\<lambda>(uid, m). sint uid < sint (offset st)) (sent st)"
      unfolding pollInv_def by simp_all
    have d1: "distinct (map fst (List.map_filter (delivered allowed) us))"
      unfolding delivered_ids using dist by (rule distinct_map_filter)
    have sub: "set (map fst (List.map_filter (delivered allowed) us)) \<subseteq> UpdateID ` set us"
      unfolding delivered_ids by auto
    have disj: "set (map fst (sent st)) \<inter>
                set (map fst (List.map_filter (delivered allowed) us)) = {}"
    proof (rule ccontr)
      assume "\<not> ?thesis"
      then obtain w where w1: "w \<in> set (map fst (sent st))"
        and w2: "w \<in> set (map fst (List.map_filter (delivered allowed) us))"
        by auto
      from w1 b0 have "sint w < sint (offset st)"
        by (auto simp: list_all_iff)
      moreover from w2 sub ge have "sint (offset st) \<le> sint w"
        by (auto simp: list_all_iff)
      ultimately show False by simp
    qed
    have b1: "list_all (\<lambda>(uid, m). sint uid < sint (offset ?st3)) (sent st)"
      using b0 le by (auto simp: list_all_iff)
    have b2: "list_all (\<lambda>(uid, m). sint uid < sint (offset ?st3))
                (List.map_filter (delivered allowed) us)"
    proof -
      have "sint (fst d) < sint (offset ?st3)"
        if "d \<in> set (List.map_filter (delivered allowed) us)" for d
      proof -
        from that have "fst d \<in> set (map fst (List.map_filter (delivered allowed) us))"
          by simp
        with sub new show ?thesis
          by (auto simp: list_all_iff)
      qed
      then show ?thesis
        by (auto simp: list_all_iff)
    qed
    show ?thesis
      unfolding snt using d0 d1 disj b1 b2 by simp
  qed
  show ?thesis
    unfolding pollInv_def using 1 2 3 by blast
qed

lemma pollInv_run:
  assumes "pollInv st" and "noMaxIds (exchanges (inboundPolling allowed rounds st))"
  shows "pollInv (inboundPolling allowed rounds st)"
  using assms
proof (induction allowed rounds st rule: inboundPolling.induct)
  case (1 allowed st)
  then show ?case by simp
next
  case (2 allowed rest st)
  then show ?case by (simp add: pollInv_def)
next
  case (3 allowed err rest st)
  from 3 pollInv_failed show ?case by simp
next
  case (4 allowed err rest st)
  from 4 pollInv_failed show ?case by simp
next
  case (5 allowed updates rest st)
  let ?st3 = "processUpdates allowed updates
                (st\<lparr>exchanges := exchanges st @ [(offset st, updates)]\<rparr>)"
  obtain more where
    "exchanges (inboundPolling allowed rest ?st3) = exchanges ?st3 @ more"
    using exchanges_inboundPolling by blast
  with "5.prems"(2) have "list_all (\<lambda>u. UpdateID u \<noteq> maxInt64) updates"
    by (simp add: noMaxIds_def)
  with "5.prems"(1) have "pollInv ?st3"
    by (rule pollInv_batch)
  with 5 show ?case by simp
qed

lemma pollInv_start: "pollInv pollStart"
  by (simp add: pollInv_def pollStart_def)

text \<open>
  Claim C10, for update ids other than the largest \<open>int64\<close>. In a run of the polling loop
  from its start in which no update id received is \<open>2^63 - 1\<close>: the offsets sent with the
  successive \<open>getUpdates\<close> requests, followed by the current offset, never decrease; the
  offset exceeds every update id received so far; processing a batch from any state does
  not decrease the offset and leaves it above every id of the batch; and when the server
  honours the offset (each response holds only ids at least the offset asked for, each
  once), no update id is published twice. At the id \<open>2^63 - 1\<close> the code's
  \<open>offset = upd.UpdateID + 1\<close> wraps around to \<open>- 2^63\<close>.
\<close>
theorem offset_nondecreasing_no_republish:
  assumes "st' = inboundPolling allowed rounds pollStart" and "noMaxIds (exchanges st')"
  shows "sorted (map sint (map fst (exchanges st') @ [offset st'])) \<and>
    list_all (\<lambda>(off, us). list_all (\<lambda>u. sint (UpdateID u) < sint (offset st')) us)
      (exchanges st') \<and>
    (\<forall>us st0. list_all (\<lambda>u. UpdateID u \<noteq> maxInt64) us \<longrightarrow>
       sint (offset st0) \<le> sint (offset (processUpdates allowed us st0)) \<and>
       list_all (\<lambda>u. sint (UpdateID u) < sint (offset (processUpdates allowed us st0))) us) \<and>
    (honoursOffset (exchanges st') \<longrightarrow> distinct (map fst (sent st')))"
proof -
  from assms have "pollInv st'"
    using pollInv_run[OF pollInv_start] by simp
  then show ?thesis
    using offset_processUpdates unfolding pollInv_def by blast
qed

lemma demo_run:
  "inboundPolling {} demoRounds pollStart =
    \<lparr>offset = 7,
     sent = [(1, inboundOf \<lparr>MessageID = 1, From = Some 123, Chat_ID = 456, msg_Text = ''hello''\<rparr>),
             (2, inboundOf \<lparr>MessageID = 1, From = Some 7, Chat_ID = 456, msg_Text = ''again''\<rparr>),
             (6, inboundOf \<lparr>MessageID = 1, From = Some 123, Chat_ID = 456, msg_Text = ''bye''\<rparr>)],
     logs = [''telegram getUpdates error: timeout'', ''telegram: stopping inbound polling''],
     exchanges = [(0, [demoUpdate 1 123 ''hello'', demoUpdate 2 7 ''again'']), (3, []),
                  (3, [\<lparr>UpdateID = 5, upd_Message = None\<rparr>, demoUpdate 6 123 ''bye''])],
     stopped = True\<rparr>"
  by (simp add: demoRounds_def pollStart_def handleUpdate_def demoUpdate_def inboundOf_def Let_def)

theorem offset_nondecreasing_no_republish_witness:
  "noMaxIds (exchanges (inboundPolling {} demoRounds pollStart)) \<and>
   honoursOffset (exchanges (inboundPolling {} demoRounds pollStart)) \<and>
   map fst (exchanges (inboundPolling {} demoRounds pollStart)) = [0, 3, 3] \<and>
   offset (inboundPolling {} demoRounds pollStart) = 7 \<and>
   sorted (map sint ([0, 3, 3] @ [7 :: 64 word])) \<and>
   map fst (sent (inboundPolling {} demoRounds pollStart)) = [1, 2, 6] \<and>
   distinct (map fst (sent (inboundPolling {} demoRounds pollStart))) \<and>
   list_all (\<lambda>u. UpdateID u \<noteq> maxInt64) [demoUpdate 1 123 ''hello'', demoUpdate 2 7 ''again''] \<and>
   list_all
     (\<lambda>u. sint (UpdateID u) <
            sint (offset (processUpdates {}
                            [demoUpdate 1 123 ''hello'', demoUpdate 2 7 ''again''] pollStart)))
     [demoUpdate 1 123 ''hello'', demoUpdate 2 7 ''again'']"
proof -
  let ?us = "[demoUpdate 1 123 ''hello'', demoUpdate 2 7 ''again'']"
  have n: "noMaxIds (exchanges (inboundPolling {} demoRounds pollStart))"
    by (simp add: demo_run noMaxIds_def demoUpdate_def maxInt64_def)
  have h: "honoursOffset (exchanges (inboundPolling {} demoRounds pollStart))"
    by (simp add: demo_run honoursOffset_def demoUpdate_def)
  have m: "list_all (\<lambda>u. UpdateID u \<noteq> maxInt64) ?us"
    by (simp add: demoUpdate_def maxInt64_def)
  note t = offset_nondecreasing_no_republish[OF refl n]
  from t h
  have "sorted (map sint (map fst (exchanges (inboundPolling {} demoRounds pollStart)) @
           [offset (inboundPolling {} demoRounds pollStart)]))"
    and d: "distinct (map fst (sent (inboundPolling {} demoRounds pollStart)))"
    by blast+
  then have s: "sorted (map sint ([0, 3, 3] @ [7 :: 64 word]))"
    by (simp add: demo_run)
  from t m
  have b: "list_all (\<lambda>u. sint (UpdateID u) < sint (offset (processUpdates {} ?us pollStart))) ?us"
    by blast
  have e: "map fst (exchanges (inboundPolling {} demoRounds pollStart)) = [0, 3, 3]"
    "offset (inboundPolling {} demoRounds pollStart) = 7"
    "map fst (sent (inboundPolling {} demoRounds pollStart)) = [1, 2, 6]"
    by (simp_all add: demo_run)
  from n h e s d m b show ?thesis
    by blast
qed

theorem offset_wraps_counterexample:
  "sint (offset (processUpdates {} [\<lparr>UpdateID = maxInt64, upd_Message = None\<rparr>] pollStart))
     < sint (offset pollStart) \<and>
   sint (offset (processUpdates {} [\<lparr>UpdateID = maxInt64, upd_Message = None\<rparr>] pollStart))
     < sint maxInt64 \<and>
   offset (inboundPolling {} [GotUpdates [\<lparr>UpdateID = maxInt64, upd_Message = None\<rparr>]] pollStart)
     = 0x8000000000000000"
  by (simp add: handleUpdate_def pollStart_def maxInt64_def)

text \<open>
  Claim C6, as the code has it. With an empty base \<open>StartTelegramWithBase\<close> returns an
  error and does nothing. Otherwise it starts the inbound polling goroutine, then
  subscribes to "telegram", then starts the outbound sender, and returns no error: the
  subscription is made before the outbound sender is started and before the function
  returns, and after the inbound polling goroutine, the producer of the channel, has been
  started.
\<close>
theorem StartTelegramWithBase_order:
  "(base = [] \<longrightarrow>
      StartTelegramWithBase token base allowFrom = ([], Some ''base URL is required'')) \<and>
   (base \<noteq> [] \<longrightarrow>
      StartTelegramWithBase token base allowFrom =
        ([Go (InboundPolling (set allowFrom)), HubSubscribe ''telegram'', Go OutboundSender], None) \<and>
      actionsBefore (Go OutboundSender) (fst (StartTelegramWithBase token base allowFrom)) =
        [Go (InboundPolling (set allowFrom)), HubSubscribe ''telegram''] \<and>
      actionsBefore (HubSubscribe ''telegram'') (fst (StartTelegramWithBase token base allowFrom)) =
        [Go (InboundPolling (set allowFrom))])"
  by (simp add: StartTelegramWithBase_def allowedSet_eq actionsBefore_def Let_def)

theorem StartTelegramWithBase_order_witness:
  "StartTelegramWithBase ''token'' [] [''123''] = ([], Some ''base URL is required'') \<and>
   StartTelegramWithBase ''token'' ''http://localhost/bottoken'' [''123''] =
     ([Go (InboundPolling {''123''}), HubSubscribe ''telegram'', Go OutboundSender], None) \<and>
   actionsBefore (Go OutboundSender)
       (fst (StartTelegramWithBase ''token'' ''http://localhost/bottoken'' [''123''])) =
     [Go (InboundPolling {''123''}), HubSubscribe ''telegram'']"
proof -
  have b: "''http://localhost/bottoken'' \<noteq> ([] :: string)" and s: "set [''123''] = {''123''}"
    by simp_all
  from StartTelegramWithBase_order[of "[]" "''token''" "[''123'']"]
    StartTelegramWithBase_order[of "''http://localhost/bottoken''" "''token''" "[''123'']"] b
  show ?thesis
    unfolding s by blast
qed

theorem subscribe_after_producer_counterexample:
  "list_ex isProducerStart
     (actionsBefore (HubSubscribe ''telegram'')
        (fst (StartTelegramWithBase ''token'' ''http://localhost/bottoken'' [])))"
  by (simp add: StartTelegramWithBase_def allowedSet_def actionsBefore_def)

text \<open>
  Once the polling loop finds the context done at its \<open>select\<close> it returns: whatever
  rounds would have followed, the run is the run up to that round, so no further
  \<open>getUpdates\<close> exchange takes place and nothing more is sent on \<open>hub.In\<close>.
\<close>

theorem inboundPolling_returns_when_done:
  "inboundPolling allowed (pre @ CtxDone # rest) st = inboundPolling allowed (pre @ [CtxDone]) st \<and>
   stopped (inboundPolling allowed (pre @ CtxDone # rest) st)"
proof -
  have 1: "inboundPolling allowed (pre @ CtxDone # rest) st =
           inboundPolling allowed (pre @ [CtxDone]) st" for rest st
  proof (induction pre arbitrary: st)
    case Nil
    show ?case by simp
  next
    case (Cons r pre)
    then show ?case by (cases r) simp_all
  qed
  have 2: "stopped (inboundPolling allowed (pre @ [CtxDone]) st)" for st
  proof (induction pre arbitrary: st)
    case Nil
    show ?case by simp
  next
    case (Cons r pre)
    then show ?case by (cases r) simp_all
  qed
  from 1 [of rest st] 2 [of st] show ?thesis by metis
qed

end
